theory Spec2Isabelle
  imports Complex_Main
begin

section \<open>Loan approval predictor: the Streamlit script \<open>app.py\<close>\<close>

text \<open>
  The script is run top to bottom on every interaction. It loads a pickled classifier,
  draws a form, draws advisory warnings, and, when the button was pressed, assembles one
  data-frame row, aligns it with the classifier's columns and shows the decision.

  Conventions of the embedding:
  \<^item> Python \<open>int\<close> is \<open>int\<close>; Python \<open>float\<close> is \<open>real\<close> (the rounding of IEEE
    doubles is not part of the model, their range is);
  \<^item> text is \<open>string\<close>, counted in UTF-8 bytes; the pictographs of the messages are
    spelled as their UTF-8 bytes;
  \<^item> an exception is a value: a class and the text \<open>str(e)\<close>; a computation that may
    raise returns \<open>exn + 'a\<close>, with \<open>Inl\<close> the exception;
  \<^item> what Streamlit draws is a list of elements, in the order of the calls.
\<close>

subsection \<open>Exceptions\<close>

text \<open>
  The classes that the script and the libraries under it raise here; all of them derive
  from \<open>Exception\<close>, which is what the handler of line 123 catches.
  \<open>OtherException\<close> stands for whatever else the model's own code raises. The texts
  of the library exceptions (KeyError, IndexError) depend on the library's version and
  are abridged.
\<close>

datatype exn_class =
  FileNotFoundError | AttributeError | KeyError | IndexError | ZeroDivisionError
  | OverflowError | OtherException

datatype exn = Exn exn_class string

fun exn_text :: "exn \<Rightarrow> string" where
  "exn_text (Exn cls msg) = msg"

fun exn_class_of :: "exn \<Rightarrow> exn_class" where
  "exn_class_of (Exn cls msg) = cls"

definition bind :: "exn + 'a \<Rightarrow> ('a \<Rightarrow> exn + 'b) \<Rightarrow> exn + 'b" where
  "bind r f = (case r of Inl e \<Rightarrow> Inl e | Inr x \<Rightarrow> f x)"

text \<open>Indexing a sequence, \<open>xs[i]\<close> with \<open>i \<ge> 0\<close>: IndexError out of range.\<close>

definition getitem :: "'a list \<Rightarrow> nat \<Rightarrow> exn + 'a" where
  "getitem xs i =
     (if i < length xs then Inr (xs ! i) else Inl (Exn IndexError ''index out of range''))"

text \<open>
  True division of two Python ints, \<open>a / b\<close>: ZeroDivisionError when the divisor is
  zero; otherwise the quotient is rounded to the nearest double, and OverflowError is
  raised when that rounding leaves the doubles. The largest double is
  \<open>2^1024 - 2^971\<close>, and a quotient rounds beyond it from \<open>2^1024 - 2^970\<close> on, in
  either direction. The rounding of a quotient within the range is not modelled: the
  result is the exact quotient.
\<close>

definition float_overflow :: "real \<Rightarrow> bool" where
  "float_overflow q = (2 ^ 1024 - 2 ^ 970 \<le> \<bar>q\<bar>)"

definition truediv :: "int \<Rightarrow> int \<Rightarrow> exn + real" where
  "truediv a b =
     (if b = 0 then Inl (Exn ZeroDivisionError ''division by zero'')
      else if float_overflow (real_of_int a / real_of_int b)
      then Inl (Exn OverflowError ''integer division result too large for a float'')
      else Inr (real_of_int a / real_of_int b))"

subsection \<open>Pictographs of the messages\<close>

definition cross_mark :: string where
  "cross_mark = [CHR 0xE2, CHR 0x9D, CHR 0x8C]"

definition check_mark :: string where
  "check_mark = [CHR 0xE2, CHR 0x9C, CHR 0x85]"

definition warning_sign :: string where
  "warning_sign = [CHR 0xE2, CHR 0x9A, CHR 0xA0]"

definition credit_card :: string where
  "credit_card = [CHR 0xF0, CHR 0x9F, CHR 0x92, CHR 0xB3]"

definition bust :: string where
  "bust = [CHR 0xF0, CHR 0x9F, CHR 0x91, CHR 0xA4]"

definition money_bag :: string where
  "money_bag = [CHR 0xF0, CHR 0x9F, CHR 0x92, CHR 0xB0]"

definition nbsp :: string where
  "nbsp = [CHR 0xC2, CHR 0xA0]"

subsection \<open>One-row data frames\<close>

datatype cell = IntV int | FloatV real | StrV string

text \<open>
  A data frame of one row: its columns in order, each with the cell of that row.
  Column labels may repeat, as in pandas.
\<close>

type_synonym dataframe = "(string \<times> cell) list"

definition columns :: "dataframe \<Rightarrow> string list" where
  "columns df = map fst df"

text \<open>
  \<open>pd.get_dummies(df)\<close> on one row: every string column \<open>name\<close> with value \<open>v\<close>
  becomes the indicator column \<open>name_v\<close>; the other columns are kept and come first.
  The indicator of the single row is set: pandas writes it as \<open>1\<close> (uint8) or as
  \<open>True\<close> (bool) depending on its version, and both are the number 1.
\<close>

fun is_object :: "string \<times> cell \<Rightarrow> bool" where
  "is_object (name, StrV v) = True"
| "is_object (name, c) = False"

fun dummy :: "string \<times> cell \<Rightarrow> dataframe" where
  "dummy (name, StrV v) = [(name @ ''_'' @ v, IntV 1)]"
| "dummy (name, c) = []"

definition get_dummies :: "dataframe \<Rightarrow> dataframe" where
  "get_dummies df = filter (\<lambda>p. \<not> is_object p) df @ concat (map dummy df)"

text \<open>\<open>pd.concat(frames, axis=1)\<close> of one-row frames with the same index.\<close>

definition pd_concat :: "dataframe list \<Rightarrow> dataframe" where
  "pd_concat frames = concat frames"

text \<open>
  The loop of lines 98-100: every model column that the frame lacks is appended with
  the value 0.
\<close>

fun fill_missing :: "string list \<Rightarrow> dataframe \<Rightarrow> dataframe" where
  "fill_missing [] df = df"
| "fill_missing (col # cols) df =
     fill_missing cols (if col \<notin> set (columns df) then df @ [(col, IntV 0)] else df)"

text \<open>
  \<open>df[labels]\<close>: the columns named by \<open>labels\<close>, in that order; a label that occurs
  several times in the frame selects every occurrence; KeyError for a label that the
  frame lacks.
\<close>

fun select_columns :: "dataframe \<Rightarrow> string list \<Rightarrow> exn + dataframe" where
  "select_columns df [] = Inr []"
| "select_columns df (col # cols) =
     (case filter (\<lambda>p. fst p = col) df of
        [] \<Rightarrow> Inl (Exn KeyError (col @ '' not in index''))
      | hit # hits \<Rightarrow>
          (case select_columns df cols of
             Inl e \<Rightarrow> Inl e
           | Inr rest \<Rightarrow> Inr ((hit # hits) @ rest)))"

subsection \<open>The loaded classifier\<close>

text \<open>
  The unpickled object: its class name, the attribute \<open>feature_names_in_\<close> (\<open>None\<close>
  when the object has no such attribute), \<open>predict\<close>, and \<open>predict_proba\<close> (\<open>None\<close>
  when \<open>hasattr(model, "predict_proba")\<close> is false). Both calls may raise.
\<close>

record model =
  class_name :: string
  feature_names_in :: "string list option"
  predict :: "dataframe \<Rightarrow> exn + int list"
  predict_proba :: "(dataframe \<Rightarrow> exn + real list list) option"

subsection \<open>The widgets (lines 28-43)\<close>

record 'a number_input =
  label :: string
  min_value :: "'a option"
  max_value :: "'a option"
  step :: "'a option"
  initial :: 'a

text \<open>
  The values a number input can hand to the script: Streamlit keeps the value within
  \<open>min_value\<close> and \<open>max_value\<close>, where given. The step only moves the value of the
  buttons and does not restrict what is typed.
\<close>

definition produces :: "('a::linorder) number_input \<Rightarrow> 'a \<Rightarrow> bool" where
  "produces w v =
     ((case min_value w of None \<Rightarrow> True | Some lo \<Rightarrow> lo \<le> v) \<and>
      (case max_value w of None \<Rightarrow> True | Some hi \<Rightarrow> v \<le> hi))"

record selectbox =
  box_label :: string
  options :: "string list"

text \<open>A select box hands over one of its options.\<close>

definition selects :: "selectbox \<Rightarrow> string \<Rightarrow> bool" where
  "selects w v = (v \<in> set (options w))"

definition person_age_input :: "int number_input" where
  "person_age_input =
     \<lparr>label = ''Person Age'', min_value = Some 18, max_value = Some 75, step = None,
      initial = 30\<rparr>"

definition person_income_input :: "int number_input" where
  "person_income_input =
     \<lparr>label = ''Person Income'', min_value = Some 10000, max_value = None,
      step = Some 100, initial = 50000\<rparr>"

definition person_emp_length_input :: "int number_input" where
  "person_emp_length_input =
     \<lparr>label = ''Employment Length (years)'', min_value = Some 0, max_value = Some 50,
      step = None, initial = 5\<rparr>"

definition person_home_ownership_box :: selectbox where
  "person_home_ownership_box =
     \<lparr>box_label = ''Home Ownership'',
      options = [''OWN'', ''RENT'', ''MORTGAGE'', ''OTHER'']\<rparr>"

definition cb_person_default_on_file_box :: selectbox where
  "cb_person_default_on_file_box =
     \<lparr>box_label = ''Default on File'', options = [''Y'', ''N'']\<rparr>"

definition cb_person_cred_hist_length_input :: "int number_input" where
  "cb_person_cred_hist_length_input =
     \<lparr>label = ''Credit History Length (years)'', min_value = Some 0, max_value = None,
      step = None, initial = 10\<rparr>"

definition loan_intent_box :: selectbox where
  "loan_intent_box =
     \<lparr>box_label = ''Loan Intent'',
      options = [''EDUCATION'', ''MEDICAL'', ''VENTURE'', ''PERSONAL'',
                 ''HOMEIMPROVEMENT'', ''DEBTCONSOLIDATION'']\<rparr>"

definition loan_grade_box :: selectbox where
  "loan_grade_box =
     \<lparr>box_label = ''Loan Grade'',
      options = [''A'', ''B'', ''C'', ''D'', ''E'', ''F'', ''G'']\<rparr>"

definition loan_amnt_input :: "int number_input" where
  "loan_amnt_input =
     \<lparr>label = ''Loan Amount'', min_value = Some 5000, max_value = None,
      step = Some 1000, initial = 10000\<rparr>"

definition loan_int_rate_input :: "real number_input" where
  "loan_int_rate_input =
     \<lparr>label = ''Loan Interest Rate (%)'', min_value = Some 5, max_value = Some 25,
      step = None, initial = 25 / 2\<rparr>"

definition loan_percent_income_input :: "real number_input" where
  "loan_percent_income_input =
     \<lparr>label = ''Loan Percent Income'', min_value = Some 0, max_value = None,
      step = Some (1 / 100), initial = 1 / 5\<rparr>"

text \<open>The values the script reads off the widgets in one run.\<close>

record applicant =
  person_age :: int
  person_income :: int
  person_emp_length :: int
  person_home_ownership :: string
  cb_person_default_on_file :: string
  cb_person_cred_hist_length :: int
  loan_intent :: string
  loan_grade :: string
  loan_amnt :: int
  loan_int_rate :: real
  loan_percent_income :: real

text \<open>The records the form can hand over: every field is a value of its widget.\<close>

definition collected :: "applicant \<Rightarrow> bool" where
  "collected r =
     (produces person_age_input (person_age r) \<and>
      produces person_income_input (person_income r) \<and>
      produces person_emp_length_input (person_emp_length r) \<and>
      selects person_home_ownership_box (person_home_ownership r) \<and>
      selects cb_person_default_on_file_box (cb_person_default_on_file r) \<and>
      produces cb_person_cred_hist_length_input (cb_person_cred_hist_length r) \<and>
      selects loan_intent_box (loan_intent r) \<and>
      selects loan_grade_box (loan_grade r) \<and>
      produces loan_amnt_input (loan_amnt r) \<and>
      produces loan_int_rate_input (loan_int_rate r) \<and>
      produces loan_percent_income_input (loan_percent_income r))"

subsection \<open>What the script draws\<close>

datatype element =
  Page_config string
  | Title string
  | Write string
  | Columns nat
  | Subheader string
  | Number_input string
  | Selectbox string
  | Button string
  | Warning string
  | Success string
  | Error string
  | Info_percent real

text \<open>
  \<open>Info_percent x\<close> is \<open>st.info(f"Approval Probability: {x:.2f}%")\<close>: the element
  keeps the number, not its two-decimal text.
\<close>

subsection \<open>Advisory warnings (lines 45-59)\<close>

definition age_warning :: string where
  "age_warning = warning_sign @ '' Age should be between 20 and 75 years.''"

definition income_warning :: string where
  "income_warning = warning_sign @ '' Income should be atleast 10000.''"

definition emp_length_warning :: string where
  "emp_length_warning =
     warning_sign @ '' Employment length should be between 0 and 50 years.''"

definition loan_amnt_warning :: string where
  "loan_amnt_warning = warning_sign @ '' Loan amount should be atleast 5000.''"

definition int_rate_warning :: string where
  "int_rate_warning = warning_sign @ '' Interest rate should be between 5% and 25%.''"

definition advisory_warnings :: "applicant \<Rightarrow> element list" where
  "advisory_warnings r =
     (if \<not> (20 \<le> person_age r \<and> person_age r \<le> 75) then [Warning age_warning] else []) @
     (if \<not> (person_income r \<ge> 10000) then [Warning income_warning] else []) @
     (if \<not> (0 \<le> person_emp_length r \<and> person_emp_length r \<le> 50)
      then [Warning emp_length_warning] else []) @
     (if \<not> (loan_amnt r \<ge> 5000) then [Warning loan_amnt_warning] else []) @
     (if \<not> (5 \<le> loan_int_rate r \<and> loan_int_rate r \<le> 25)
      then [Warning int_rate_warning] else [])"

subsection \<open>Preprocessing (lines 66-94)\<close>

definition cb_person_default_on_file_bin :: "string \<Rightarrow> int" where
  "cb_person_default_on_file_bin v = (if v = ''Y'' then 1 else 0)"

definition debt_to_income_ratio :: "int \<Rightarrow> int \<Rightarrow> exn + real" where
  "debt_to_income_ratio amnt income = truediv amnt (max income 1)"

definition numeric_df :: "applicant \<Rightarrow> int \<Rightarrow> real \<Rightarrow> dataframe" where
  "numeric_df r default_bin ratio =
     [(''person_age'', IntV (person_age r)),
      (''person_income'', IntV (person_income r)),
      (''person_emp_length'', IntV (person_emp_length r)),
      (''loan_amnt'', IntV (loan_amnt r)),
      (''loan_int_rate'', FloatV (loan_int_rate r)),
      (''loan_percent_income'', FloatV (loan_percent_income r)),
      (''cb_person_cred_hist_length'', IntV (cb_person_cred_hist_length r)),
      (''cb_person_default_on_file'', IntV default_bin),
      (''debt_to_income_ratio'', FloatV ratio)]"

definition cat_df :: "applicant \<Rightarrow> dataframe" where
  "cat_df r =
     [(''person_home_ownership'', StrV (person_home_ownership r)),
      (''loan_intent'', StrV (loan_intent r)),
      (''loan_grade'', StrV (loan_grade r))]"

text \<open>Lines 66-94: the frame \<open>input_df\<close> before it is aligned with the model.\<close>

definition preprocess :: "applicant \<Rightarrow> exn + dataframe" where
  "preprocess r =
     bind (debt_to_income_ratio (loan_amnt r) (person_income r)) (\<lambda>ratio.
       Inr (pd_concat
              [numeric_df r (cb_person_default_on_file_bin (cb_person_default_on_file r))
                 ratio,
               get_dummies (cat_df r)]))"

subsection \<open>Alignment with the model's columns (lines 96-103)\<close>

text \<open>Line 97: reading an attribute that the object lacks raises AttributeError.\<close>

definition no_attribute :: "string \<Rightarrow> string \<Rightarrow> string" where
  "no_attribute cls attr =
     [CHR 0x27] @ cls @ [CHR 0x27] @ '' object has no attribute '' @
     [CHR 0x27] @ attr @ [CHR 0x27]"

definition model_columns :: "model \<Rightarrow> exn + string list" where
  "model_columns m =
     (case feature_names_in m of
        None \<Rightarrow> Inl (Exn AttributeError (no_attribute (class_name m) ''feature_names_in_''))
      | Some cols \<Rightarrow> Inr cols)"

definition alignToSchema :: "dataframe \<Rightarrow> string list \<Rightarrow> exn + dataframe" where
  "alignToSchema input_df cols = select_columns (fill_missing cols input_df) cols"

subsection \<open>Prediction and its display (lines 105-121)\<close>

definition predictProbability :: "model \<Rightarrow> dataframe \<Rightarrow> exn + real option" where
  "predictProbability m X =
     (case predict_proba m of
        Some f \<Rightarrow>
          bind (f X) (\<lambda>rows. bind (getitem rows 0) (\<lambda>row. bind (getitem row 1) (\<lambda>p.
            Inr (Some p))))
      | None \<Rightarrow> Inr None)"

definition decision_message :: "int \<Rightarrow> element" where
  "decision_message prediction =
     (if prediction = 1 then Success (check_mark @ '' Loan Approved!'')
      else Error (cross_mark @ '' Loan Not Approved!''))"

definition probability_line :: "real option \<Rightarrow> element list" where
  "probability_line proba =
     (case proba of Some p \<Rightarrow> [Info_percent (p * 100)] | None \<Rightarrow> [])"

definition show_result :: "int \<Rightarrow> real option \<Rightarrow> element list" where
  "show_result prediction proba = decision_message prediction # probability_line proba"

definition invoke_model :: "model \<Rightarrow> dataframe \<Rightarrow> exn + element list" where
  "invoke_model m X =
     bind (predict m X) (\<lambda>labels. bind (getitem labels 0) (\<lambda>prediction.
       bind (predictProbability m X) (\<lambda>proba.
         Inr (show_result prediction proba))))"

subsection \<open>The button's handler (lines 64-124)\<close>

definition try_body :: "model \<Rightarrow> applicant \<Rightarrow> exn + element list" where
  "try_body m r =
     bind (preprocess r) (\<lambda>input_df.
       bind (model_columns m) (\<lambda>cols.
         bind (alignToSchema input_df cols) (\<lambda>X.
           invoke_model m X)))"

definition prediction_error :: "exn \<Rightarrow> element" where
  "prediction_error e = Error (''Error during prediction:'' @ nbsp @ exn_text e)"

definition on_predict :: "model \<Rightarrow> applicant \<Rightarrow> element list" where
  "on_predict m r =
     (case try_body m r of Inl e \<Rightarrow> [prediction_error e] | Inr shown \<Rightarrow> shown)"

subsection \<open>One run of the script\<close>

text \<open>
  What a run depends on: the directory of the script, the model file (\<open>None\<close> when no
  file is at the path, otherwise what \<open>joblib.load\<close> makes of it), the values of the
  widgets, and whether the button was pressed.
\<close>

record session =
  script_dir :: string
  model_file :: "(exn + model) option"
  inputs :: applicant
  pressed :: bool

text \<open>\<open>os.path.join\<close> on POSIX, for two components.\<close>

definition path_join :: "string \<Rightarrow> string \<Rightarrow> string" where
  "path_join a b =
     (if b \<noteq> [] \<and> hd b = CHR ''/'' then b
      else if a = [] \<or> last a = CHR ''/'' then a @ b
      else a @ ''/'' @ b)"

definition MODEL_PATH :: "session \<Rightarrow> string" where
  "MODEL_PATH s = path_join (path_join (script_dir s) ''Model'') ''best_xgb.pkl''"

text \<open>Lines 11-14.\<close>

definition load_model :: "session \<Rightarrow> exn + model" where
  "load_model s =
     (case model_file s of
        None \<Rightarrow>
          Inl (Exn FileNotFoundError
                 (cross_mark @ '' Model file not found at: '' @ MODEL_PATH s))
      | Some loaded \<Rightarrow> loaded)"

text \<open>Lines 19-43.\<close>

definition page_header :: "element list" where
  "page_header =
     [Page_config (credit_card @ '' Loan Approval Predictor''),
      Title (credit_card @ '' Loan Approval Prediction''),
      Write ''Fill in the details below to predict whether the loan will be approved.'']"

definition form :: "element list" where
  "form =
     [Columns 2,
      Subheader (bust @ '' Personal Info''),
      Number_input (label person_age_input),
      Number_input (label person_income_input),
      Number_input (label person_emp_length_input),
      Selectbox (box_label person_home_ownership_box),
      Selectbox (box_label cb_person_default_on_file_box),
      Number_input (label cb_person_cred_hist_length_input),
      Subheader (money_bag @ '' Loan Info''),
      Selectbox (box_label loan_intent_box),
      Selectbox (box_label loan_grade_box),
      Number_input (label loan_amnt_input),
      Number_input (label loan_int_rate_input),
      Number_input (label loan_percent_income_input)]"

datatype outcome = Completed | Uncaught exn

text \<open>
  A run: how the script ends, and what it has drawn by then. An exception that leaves
  the script ends the run.
\<close>

definition run_app :: "session \<Rightarrow> outcome \<times> element list" where
  "run_app s =
     (case load_model s of
        Inl e \<Rightarrow> (Uncaught e, [])
      | Inr m \<Rightarrow>
          (Completed,
           page_header @ form @ advisory_warnings (inputs s) @ [Button ''Predict''] @
           (if pressed s then on_predict m (inputs s) else [])))"

subsection \<open>Contract of a classifier's probabilities\<close>

text \<open>
  A row of \<open>predict_proba\<close> is a distribution over the classes: no entry is negative
  and the entries add up to one.
\<close>

definition class_probabilities :: "real list \<Rightarrow> bool" where
  "class_probabilities row = ((\<forall>p \<in> set row. 0 \<le> p) \<and> sum_list row = 1)"

subsection \<open>Sample sessions\<close>

text \<open>The applicant of the first end-to-end scenario.\<close>

definition scenario1 :: applicant where
  "scenario1 =
     \<lparr>person_age = 30, person_income = 50000, person_emp_length = 5,
      person_home_ownership = ''RENT'', cb_person_default_on_file = ''N'',
      cb_person_cred_hist_length = 10, loan_intent = ''EDUCATION'', loan_grade = ''B'',
      loan_amnt = 10000, loan_int_rate = 25 / 2, loan_percent_income = 1 / 5\<rparr>"

text \<open>An applicant of 18 years: the widget accepts the age, the advisory check does not.\<close>

definition young_applicant :: applicant where
  "young_applicant = scenario1\<lparr>person_age := 18\<rparr>"

definition sample_columns :: "string list" where
  "sample_columns =
     [''person_age'', ''loan_amnt'', ''cb_person_default_on_file'',
      ''debt_to_income_ratio'', ''person_home_ownership_OWN'',
      ''person_home_ownership_RENT'', ''loan_intent_EDUCATION'', ''loan_grade_B'',
      ''loan_grade_C'']"

text \<open>A classifier with columns and probabilities, one without probabilities, one
  without columns, and one whose \<open>predict\<close> raises.\<close>

definition sample_model :: model where
  "sample_model =
     \<lparr>class_name = ''XGBClassifier'', feature_names_in = Some sample_columns,
      predict = (\<lambda>X. Inr [1]),
      predict_proba = Some (\<lambda>X. Inr [[1 / 5, 4 / 5]])\<rparr>"

definition plain_model :: model where
  "plain_model = sample_model\<lparr>predict_proba := None\<rparr>"

definition schemaless_model :: model where
  "schemaless_model = sample_model\<lparr>feature_names_in := None\<rparr>"

definition failing_model :: model where
  "failing_model =
     sample_model
       \<lparr>predict :=
          (\<lambda>X. Inl (Exn OtherException (no_attribute ''XGBClassifier'' ''feature_names_in_'')))\<rparr>"

text \<open>A classifier with columns whose \<open>predict\<close> reads an attribute that is not
  there, and one whose probabilities are no distribution.\<close>

definition wrapper_model :: model where
  "wrapper_model =
     sample_model
       \<lparr>predict :=
          (\<lambda>X. Inl (Exn AttributeError (no_attribute ''XGBClassifier'' ''feature_names_in_'')))\<rparr>"

definition skewed_model :: model where
  "skewed_model = sample_model\<lparr>predict_proba := Some (\<lambda>X. Inr [[- 1 / 2, 3 / 2]])\<rparr>"

text \<open>An applicant whose loan amount is beyond the doubles.\<close>

definition huge_applicant :: applicant where
  "huge_applicant = scenario1\<lparr>loan_amnt := 2 ^ 1100\<rparr>"

definition sample_session :: session where
  "sample_session =
     \<lparr>script_dir = ''/app'', model_file = Some (Inr sample_model), inputs = young_applicant,
      pressed = True\<rparr>"

definition failing_session :: session where
  "failing_session = sample_session\<lparr>model_file := Some (Inr failing_model)\<rparr>"

definition missing_file_session :: session where
  "missing_file_session = sample_session\<lparr>model_file := None\<rparr>"

text \<open>A session whose model file is there and cannot be unpickled.\<close>

definition truncated_file_session :: session where
  "truncated_file_session =
     sample_session\<lparr>model_file := Some (Inl (Exn OtherException ''pickle data was truncated''))\<rparr>"

definition schemaless_session :: session where
  "schemaless_session = sample_session\<lparr>model_file := Some (Inr schemaless_model)\<rparr>"

definition huge_session :: session where
  "huge_session = sample_session\<lparr>inputs := huge_applicant\<rparr>"

section \<open>Properties\<close>

subsection \<open>Auxiliary facts about frames\<close>

lemma bind_Inr [simp]: "bind (Inr x) f = f x" by (simp add: bind_def)
lemma bind_Inl [simp]: "bind (Inl e) f = Inl e" by (simp add: bind_def)

lemma columns_fill_missing:
  "set (columns (fill_missing cs df)) = set (columns df) \<union> set cs"
  by (induction cs arbitrary: df) (auto simp: columns_def)

lemma distinct_fill_missing:
  "distinct (columns df) \<Longrightarrow> distinct (columns (fill_missing cs df))"
  by (induction cs arbitrary: df) (auto simp: columns_def)

lemma in_columns_iff: "c \<in> set (columns df) \<longleftrightarrow> map_of df c \<noteq> None"
  by (simp add: columns_def map_of_eq_None_iff)

lemma map_of_fill_missing:
  "map_of (fill_missing cs df) c =
     (case map_of df c of Some v \<Rightarrow> Some v
      | None \<Rightarrow> if c \<in> set cs then Some (IntV 0) else None)"
proof (induction cs arbitrary: df)
  case Nil
  then show ?case by (simp split: option.splits)
next
  case (Cons a cs)
  show ?case
    by (simp add: Cons.IH in_columns_iff map_add_def split: option.splits)
qed

lemma filter_label_distinct:
  "distinct (map fst df) \<Longrightarrow> map_of df c = Some v \<Longrightarrow>
   filter (\<lambda>p. fst p = c) df = [(c, v)]"
proof (induction df)
  case Nil
  then show ?case by simp
next
  case (Cons a df)
  obtain k w where a: "a = (k, w)" by (cases a)
  show ?case
  proof (cases "k = c")
    case True
    with Cons.prems a have "c \<notin> fst ` set df" and "w = v" by auto
    then have "filter (\<lambda>p. fst p = c) df = []" by (auto simp: filter_empty_conv)
    with True a \<open>w = v\<close> show ?thesis by simp
  next
    case False
    with Cons a show ?thesis by auto
  qed
qed

lemma select_columns_distinct:
  "distinct (columns df) \<Longrightarrow> set cs \<subseteq> set (columns df) \<Longrightarrow>
   select_columns df cs = Inr (map (\<lambda>c. (c, the (map_of df c))) cs)"
proof (induction cs)
  case Nil
  then show ?case by simp
next
  case (Cons c cs)
  from Cons.prems obtain v where v: "map_of df c = Some v"
    by (auto simp: in_columns_iff)
  with Cons.prems have "filter (\<lambda>p. fst p = c) df = [(c, v)]"
    by (simp add: filter_label_distinct columns_def)
  with Cons v show ?case by simp
qed

lemma alignToSchema_distinct:
  assumes "distinct (columns df)"
  shows "alignToSchema df cols = Inr (map (\<lambda>c. (c, case map_of df c of Some v \<Rightarrow> v | None \<Rightarrow> IntV 0)) cols)"
proof -
  let ?f = "fill_missing cols df"
  have "select_columns ?f cols = Inr (map (\<lambda>c. (c, the (map_of ?f c))) cols)"
    using assms by (intro select_columns_distinct distinct_fill_missing) (auto simp: columns_fill_missing)
  moreover have "map (\<lambda>c. (c, the (map_of ?f c))) cols
     = map (\<lambda>c. (c, case map_of df c of Some v \<Rightarrow> v | None \<Rightarrow> IntV 0)) cols"
    by (simp add: map_of_fill_missing split: option.splits)
  ultimately show ?thesis by (simp add: alignToSchema_def)
qed

text \<open>Once every label has been filled in, the selection cannot miss one.\<close>

lemma select_columns_present:
  "set cs \<subseteq> set (columns df) \<Longrightarrow> \<exists>X. select_columns df cs = Inr X"
proof (induction cs)
  case Nil
  then show ?case by simp
next
  case (Cons c cs)
  then have "c \<in> fst ` set df" by (simp add: columns_def)
  then have "filter (\<lambda>p. fst p = c) df \<noteq> []" by (auto simp: filter_empty_conv)
  with Cons show ?case by (auto split: list.splits)
qed

lemma alignToSchema_total: "\<exists>X. alignToSchema df cols = Inr X"
  unfolding alignToSchema_def
  by (rule select_columns_present) (simp add: columns_fill_missing)

text \<open>Line 68 either overflows or yields the quotient; its divisor is never zero.\<close>

lemma debt_to_income_ratio_cases:
  "debt_to_income_ratio amnt income =
     (if float_overflow (real_of_int amnt / real_of_int (max income 1))
      then Inl (Exn OverflowError ''integer division result too large for a float'')
      else Inr (real_of_int amnt / real_of_int (max income 1)))"
  by (simp add: debt_to_income_ratio_def truediv_def max_def)

lemma preprocess_overflow:
  "float_overflow (real_of_int (loan_amnt r) / real_of_int (max (person_income r) 1)) \<Longrightarrow>
   preprocess r = Inl (Exn OverflowError ''integer division result too large for a float'')"
  by (simp add: preprocess_def debt_to_income_ratio_cases)

lemma preprocess_eq:
  "\<not> float_overflow (real_of_int (loan_amnt r) / real_of_int (max (person_income r) 1)) \<Longrightarrow>
   preprocess r =
     Inr (numeric_df r (cb_person_default_on_file_bin (cb_person_default_on_file r))
            (real_of_int (loan_amnt r) / real_of_int (max (person_income r) 1)) @
          [(''person_home_ownership_'' @ person_home_ownership r, IntV 1),
           (''loan_intent_'' @ loan_intent r, IntV 1),
           (''loan_grade_'' @ loan_grade r, IntV 1)])"
  by (simp add: preprocess_def debt_to_income_ratio_cases pd_concat_def get_dummies_def
      cat_df_def)

lemma preprocess_Inr:
  assumes "preprocess r = Inr df"
  shows "df =
     numeric_df r (cb_person_default_on_file_bin (cb_person_default_on_file r))
       (real_of_int (loan_amnt r) / real_of_int (max (person_income r) 1)) @
     [(''person_home_ownership_'' @ person_home_ownership r, IntV 1),
      (''loan_intent_'' @ loan_intent r, IntV 1),
      (''loan_grade_'' @ loan_grade r, IntV 1)]"
proof (cases "float_overflow
    (real_of_int (loan_amnt r) / real_of_int (max (person_income r) 1))")
  case True
  from preprocess_overflow [OF True] assms show ?thesis by simp
next
  case False
  from preprocess_eq [OF False] assms show ?thesis by simp
qed

lemma preprocess_distinct:
  "preprocess r = Inr df \<Longrightarrow> distinct (columns df)"
  by (drule preprocess_Inr) (auto simp: columns_def numeric_df_def)

text \<open>With the model's columns at hand, the handler aligns the frame and calls the model on it.\<close>

lemma try_body_aligned:
  assumes "feature_names_in m = Some cols" and df: "preprocess r = Inr df"
  shows "\<exists>X. alignToSchema df cols = Inr X \<and>
     X = map (\<lambda>c. (c, case map_of df c of Some v \<Rightarrow> v | None \<Rightarrow> IntV 0)) cols \<and>
     try_body m r = invoke_model m X"
proof -
  from df have "distinct (columns df)" by (rule preprocess_distinct)
  then have al: "alignToSchema df cols =
      Inr (map (\<lambda>c. (c, case map_of df c of Some v \<Rightarrow> v | None \<Rightarrow> IntV 0)) cols)"
    by (rule alignToSchema_distinct)
  have "model_columns m = Inr cols" using assms(1) by (simp add: model_columns_def)
  with df al show ?thesis by (simp add: try_body_def)
qed

text \<open>A frame tabulated over a list of labels.\<close>

lemma map_of_tabulate:
  "c \<in> set cols \<Longrightarrow> map_of (map (\<lambda>c. (c, f c)) cols) c = Some (f c)"
  by (induction cols) auto

text \<open>The sample applicants' ratios are within the doubles; the huge one's is not.\<close>

lemma scenario1_in_range:
  "\<not> float_overflow
     (real_of_int (loan_amnt scenario1) / real_of_int (max (person_income scenario1) 1))"
  by (simp add: scenario1_def float_overflow_def)

lemma young_applicant_in_range:
  "\<not> float_overflow
     (real_of_int (loan_amnt young_applicant) /
      real_of_int (max (person_income young_applicant) 1))"
  by (simp add: young_applicant_def scenario1_def float_overflow_def)

lemma huge_applicant_overflows:
  "float_overflow
     (real_of_int (loan_amnt huge_applicant) /
      real_of_int (max (person_income huge_applicant) 1))"
  by (simp add: huge_applicant_def scenario1_def float_overflow_def)

subsection \<open>Alignment with the schema\<close>

text \<open>
  Claim C1. For every applicant record, whatever categorical values were selected, the
  frame handed to the model's \<open>predict\<close> has exactly the model's columns
  (\<open>feature_names_in_\<close>), in the model's order: a model column that the encoded frame
  lacks is there with the value 0, a model column that the encoded frame has keeps its
  cell, and an encoded column that the model does not name is gone. The record's ratio
  is one that line 68 can compute: where it is beyond the doubles the handler has raised
  before any frame exists.
\<close>

theorem aligned_columns_equal_schema:
  assumes "feature_names_in m = Some cols"
    and "\<not> float_overflow
           (real_of_int (loan_amnt r) / real_of_int (max (person_income r) 1))"
  shows "\<exists>input_df X. preprocess r = Inr input_df \<and> alignToSchema input_df cols = Inr X \<and>
     columns X = cols \<and>
     (\<forall>c \<in> set cols. c \<notin> set (columns input_df) \<longrightarrow> map_of X c = Some (IntV 0)) \<and>
     (\<forall>c \<in> set cols. c \<in> set (columns input_df) \<longrightarrow> map_of X c = map_of input_df c) \<and>
     (\<forall>c \<in> set (columns input_df). c \<notin> set cols \<longrightarrow> c \<notin> set (columns X)) \<and>
     try_body m r = invoke_model m X"
proof -
  from preprocess_eq [OF assms(2)] obtain df where df: "preprocess r = Inr df" by simp
  from try_body_aligned [OF assms(1) df] obtain X where
    al: "alignToSchema df cols = Inr X" and
    X: "X = map (\<lambda>c. (c, case map_of df c of Some v \<Rightarrow> v | None \<Rightarrow> IntV 0)) cols" and
    tb: "try_body m r = invoke_model m X"
    by blast
  have cols: "columns X = cols" by (simp add: X columns_def comp_def)
  have zero: "\<forall>c \<in> set cols. c \<notin> set (columns df) \<longrightarrow> map_of X c = Some (IntV 0)"
    by (simp add: X map_of_tabulate in_columns_iff)
  have kept: "\<forall>c \<in> set cols. c \<in> set (columns df) \<longrightarrow> map_of X c = map_of df c"
    by (auto simp: X map_of_tabulate in_columns_iff)
  from df al cols zero kept tb show ?thesis by auto
qed

text \<open>The first scenario against the sample columns: grade C is filled with 0, grade B
  is kept, the income is dropped.\<close>

theorem aligned_columns_equal_schema_witness:
  "\<exists>input_df X. preprocess scenario1 = Inr input_df \<and>
     alignToSchema input_df sample_columns = Inr X \<and>
     columns X = sample_columns \<and>
     map_of X ''loan_grade_C'' = Some (IntV 0) \<and>
     map_of X ''loan_grade_B'' = Some (IntV 1) \<and>
     ''person_income'' \<notin> set (columns X) \<and>
     try_body sample_model scenario1 = invoke_model sample_model X"
proof -
  have h: "feature_names_in sample_model = Some sample_columns"
    by (simp add: sample_model_def)
  from aligned_columns_equal_schema [OF h scenario1_in_range] obtain df X where
    df: "preprocess scenario1 = Inr df" and al: "alignToSchema df sample_columns = Inr X" and
    cols: "columns X = sample_columns" and
    zero: "\<forall>c \<in> set sample_columns. c \<notin> set (columns df) \<longrightarrow> map_of X c = Some (IntV 0)" and
    kept: "\<forall>c \<in> set sample_columns. c \<in> set (columns df) \<longrightarrow> map_of X c = map_of df c" and
    dropped: "\<forall>c \<in> set (columns df). c \<notin> set sample_columns \<longrightarrow> c \<notin> set (columns X)" and
    tb: "try_body sample_model scenario1 = invoke_model sample_model X"
    by blast
  from preprocess_Inr [OF df] have dfeq: "df = numeric_df scenario1 0 (1 / 5) @
     [(''person_home_ownership_RENT'', IntV 1), (''loan_intent_EDUCATION'', IntV 1),
      (''loan_grade_B'', IntV 1)]"
    by (simp add: scenario1_def cb_person_default_on_file_bin_def)
  have c: "map_of X ''loan_grade_C'' = Some (IntV 0)"
    using zero by (simp add: dfeq sample_columns_def columns_def numeric_df_def)
  have b: "map_of X ''loan_grade_B'' = Some (IntV 1)"
    using kept by (simp add: dfeq sample_columns_def columns_def numeric_df_def)
  have i: "''person_income'' \<notin> set (columns X)"
    using dropped by (simp add: dfeq sample_columns_def columns_def numeric_df_def)
  from df al cols c b i tb show ?thesis by blast
qed

subsection \<open>Claims about widgets, warnings, errors and the display\<close>

text \<open>
  Unfolding sets for the texts of the warnings and for the widgets.
\<close>

lemmas warning_texts =
  age_warning_def income_warning_def emp_length_warning_def loan_amnt_warning_def
  int_rate_warning_def

lemmas widget_defs =
  person_age_input_def person_income_input_def person_emp_length_input_def
  person_home_ownership_box_def cb_person_default_on_file_box_def
  cb_person_cred_hist_length_input_def loan_intent_box_def loan_grade_box_def
  loan_amnt_input_def loan_int_rate_input_def loan_percent_income_input_def

text \<open>
  The sample applicants are records the form can hand over.
\<close>

lemma collected_scenario1: "collected scenario1"
  by (simp add: collected_def produces_def selects_def widget_defs scenario1_def)

lemma collected_young_applicant: "collected young_applicant"
  by (simp add: collected_def produces_def selects_def widget_defs scenario1_def
      young_applicant_def)

text \<open>
  A run with a loaded model draws the page, the form, the warnings and the button, and
  then the handler's elements when the button was pressed. The page and the form,
  element by element.
\<close>

lemma run_app_loaded:
  "model_file s = Some (Inr m) \<Longrightarrow>
   run_app s =
     (Completed,
      page_header @ form @ advisory_warnings (inputs s) @ [Button ''Predict''] @
      (if pressed s then on_predict m (inputs s) else []))"
  by (simp add: run_app_def load_model_def)

lemma page_header_form:
  "page_header @ form =
     [Page_config ([CHR 0xF0, CHR 0x9F, CHR 0x92, CHR 0xB3] @ '' Loan Approval Predictor''),
      Title ([CHR 0xF0, CHR 0x9F, CHR 0x92, CHR 0xB3] @ '' Loan Approval Prediction''),
      Write ''Fill in the details below to predict whether the loan will be approved.'',
      Columns 2,
      Subheader ([CHR 0xF0, CHR 0x9F, CHR 0x91, CHR 0xA4] @ '' Personal Info''),
      Number_input ''Person Age'', Number_input ''Person Income'',
      Number_input ''Employment Length (years)'', Selectbox ''Home Ownership'',
      Selectbox ''Default on File'', Number_input ''Credit History Length (years)'',
      Subheader ([CHR 0xF0, CHR 0x9F, CHR 0x92, CHR 0xB0] @ '' Loan Info''),
      Selectbox ''Loan Intent'', Selectbox ''Loan Grade'', Number_input ''Loan Amount'',
      Number_input ''Loan Interest Rate (%)'', Number_input ''Loan Percent Income'']"
  by (simp add: page_header_def form_def widget_defs credit_card_def bust_def money_bag_def)

text \<open>
  The raw fields are cells of the frame as they were read.
\<close>

lemma map_of_preprocess:
  "preprocess r = Inr df \<Longrightarrow>
   map_of df ''person_age'' = Some (IntV (person_age r)) \<and>
   map_of df ''person_income'' = Some (IntV (person_income r)) \<and>
   map_of df ''person_emp_length'' = Some (IntV (person_emp_length r)) \<and>
   map_of df ''loan_amnt'' = Some (IntV (loan_amnt r)) \<and>
   map_of df ''loan_int_rate'' = Some (FloatV (loan_int_rate r))"
  by (drule preprocess_Inr) (simp add: numeric_df_def)

text \<open>
  What the sample models show or raise, whatever the frame.
\<close>

lemma invoke_sample_model:
  "invoke_model sample_model X = Inr [decision_message 1, Info_percent 80]"
  by (simp add: invoke_model_def sample_model_def getitem_def predictProbability_def
      show_result_def probability_line_def)

lemma on_predict_sample:
  assumes "preprocess r = Inr df"
  shows "on_predict sample_model r = [decision_message 1, Info_percent 80]"
proof -
  have "feature_names_in sample_model = Some sample_columns" by (simp add: sample_model_def)
  from try_body_aligned [OF this assms] show ?thesis
    by (auto simp: on_predict_def invoke_sample_model)
qed

lemma try_body_failing:
  assumes "preprocess r = Inr df"
  shows "try_body failing_model r =
     Inl (Exn OtherException (no_attribute ''XGBClassifier'' ''feature_names_in_''))"
proof -
  have "feature_names_in failing_model = Some sample_columns"
    by (simp add: failing_model_def sample_model_def)
  from try_body_aligned [OF this assms] show ?thesis
    by (auto simp: invoke_model_def failing_model_def)
qed

lemma try_body_wrapper:
  assumes "preprocess r = Inr df"
  shows "try_body wrapper_model r =
     Inl (Exn AttributeError (no_attribute ''XGBClassifier'' ''feature_names_in_''))"
proof -
  have "feature_names_in wrapper_model = Some sample_columns"
    by (simp add: wrapper_model_def sample_model_def)
  from try_body_aligned [OF this assms] show ?thesis
    by (auto simp: invoke_model_def wrapper_model_def)
qed

lemma try_body_schemaless:
  assumes "feature_names_in m = None" and "preprocess r = Inr df"
  shows "try_body m r =
     Inl (Exn AttributeError (no_attribute (class_name m) ''feature_names_in_''))"
  using assms by (simp add: try_body_def model_columns_def)

text \<open>
  An entry of a distribution lies between 0 and 1.
\<close>

lemma member_le_sum_list_real:
  fixes xs :: "real list"
  shows "\<forall>x \<in> set xs. 0 \<le> x \<Longrightarrow> p \<in> set xs \<Longrightarrow> p \<le> sum_list xs"
proof (induction xs)
  case Nil
  then show ?case by simp
next
  case (Cons a xs)
  then have "0 \<le> sum_list xs" by (simp add: sum_list_nonneg)
  with Cons show ?case by auto
qed

lemma class_probabilities_bounds:
  assumes "class_probabilities row" and "getitem row i = Inr p"
  shows "0 \<le> p \<and> p \<le> 1"
proof -
  from assms(2) have "p \<in> set row" by (auto simp: getitem_def split: if_splits)
  with assms(1) member_le_sum_list_real [of row p] show ?thesis
    by (auto simp: class_probabilities_def)
qed

text \<open>
  The two branches of lines 109-112, and the display of lines 115-121.
\<close>

lemma predictProbability_None: "predict_proba m = None \<Longrightarrow> predictProbability m X = Inr None"
  by (simp add: predictProbability_def)

lemma predictProbability_Some:
  "predict_proba m = Some f \<Longrightarrow> f X = Inr rows \<Longrightarrow> getitem rows 0 = Inr row \<Longrightarrow>
   getitem row 1 = Inr p \<Longrightarrow> predictProbability m X = Inr (Some p)"
  by (simp add: predictProbability_def)

lemma invoke_model_shown:
  "predict m X = Inr labels \<Longrightarrow> getitem labels 0 = Inr prediction \<Longrightarrow>
   predictProbability m X = Inr proba \<Longrightarrow>
   invoke_model m X = Inr (decision_message prediction # probability_line proba)"
  by (simp add: invoke_model_def show_result_def)

lemma on_predict_shown:
  "try_body m r = invoke_model m X \<Longrightarrow> predict m X = Inr labels \<Longrightarrow>
   getitem labels 0 = Inr prediction \<Longrightarrow> predictProbability m X = Inr proba \<Longrightarrow>
   on_predict m r = decision_message prediction # probability_line proba"
  by (simp add: on_predict_def invoke_model_shown)

lemma decision_message_eq:
  "decision_message prediction =
     (if prediction = 1 then Success ([CHR 0xE2, CHR 0x9C, CHR 0x85] @ '' Loan Approved!'')
      else Error ([CHR 0xE2, CHR 0x9D, CHR 0x8C] @ '' Loan Not Approved!''))"
  by (simp add: decision_message_def check_mark_def cross_mark_def)

text \<open>
  The sample row of probabilities is a distribution.
\<close>

lemma class_probabilities_sample: "class_probabilities [1 / 5, 4 / 5]"
  by (simp add: class_probabilities_def)

text \<open>
  The encoded frame of the first scenario, before alignment.
\<close>

lemma preprocess_scenario1:
  "preprocess scenario1 =
     Inr [(''person_age'', IntV 30), (''person_income'', IntV 50000),
          (''person_emp_length'', IntV 5), (''loan_amnt'', IntV 10000),
          (''loan_int_rate'', FloatV (25 / 2)), (''loan_percent_income'', FloatV (1 / 5)),
          (''cb_person_cred_hist_length'', IntV 10), (''cb_person_default_on_file'', IntV 0),
          (''debt_to_income_ratio'', FloatV (1 / 5)),
          (''person_home_ownership_RENT'', IntV 1), (''loan_intent_EDUCATION'', IntV 1),
          (''loan_grade_B'', IntV 1)]"
  using preprocess_eq [OF scenario1_in_range]
  by (simp add: scenario1_def numeric_df_def cb_person_default_on_file_bin_def)

text \<open>
  The handler of lines 123-124: the message, the no-break space, the exception's text.
\<close>

lemma on_predict_Inl:
  "try_body m r = Inl e \<Longrightarrow>
   on_predict m r = [Error (''Error during prediction:'' @ [CHR 0xC2, CHR 0xA0] @ exn_text e)]"
  by (simp add: on_predict_def prediction_error_def nbsp_def)

text \<open>
  A divisor of at least 1 keeps a loan amount within the doubles within them.
\<close>

lemma float_overflow_quotient:
  assumes "\<not> float_overflow (real_of_int amnt)"
  shows "\<not> float_overflow (real_of_int amnt / real_of_int (max income 1))"
proof -
  have "1 \<le> real_of_int (max income 1)" by simp
  then have "\<bar>real_of_int amnt\<bar> / real_of_int (max income 1) \<le> \<bar>real_of_int amnt\<bar> / 1"
    by (intro divide_left_mono) auto
  then have "\<bar>real_of_int amnt / real_of_int (max income 1)\<bar> \<le> \<bar>real_of_int amnt\<bar>"
    by simp
  with assms show ?thesis unfolding float_overflow_def by linarith
qed

text \<open>
  Claim C2. Binarization of the default-on-file field: \<open>"Y"\<close> gives 1 and \<open>"N"\<close> gives
  0; the select box offers these two values only, so for every record the form can hand
  over the field is one of the two and the two cases cover it.
\<close>

theorem default_on_file_binarization:
  "cb_person_default_on_file_bin ''Y'' = 1 \<and>
   cb_person_default_on_file_bin ''N'' = 0 \<and>
   (selects cb_person_default_on_file_box v \<longrightarrow> v = ''Y'' \<or> v = ''N'') \<and>
   (collected r \<longrightarrow>
      (cb_person_default_on_file r = ''Y'' \<and>
       cb_person_default_on_file_bin (cb_person_default_on_file r) = 1) \<or>
      (cb_person_default_on_file r = ''N'' \<and>
       cb_person_default_on_file_bin (cb_person_default_on_file r) = 0))"
  by (auto simp: cb_person_default_on_file_bin_def selects_def collected_def
      cb_person_default_on_file_box_def)

text \<open>
  The first scenario selects \<open>"N"\<close>.
\<close>

theorem default_on_file_binarization_witness:
  "selects cb_person_default_on_file_box ''N'' \<and> collected scenario1 \<and>
   cb_person_default_on_file scenario1 = ''N'' \<and>
   cb_person_default_on_file_bin (cb_person_default_on_file scenario1) = 0"
  using default_on_file_binarization [of "''N''" scenario1] collected_scenario1
  by (simp add: selects_def cb_person_default_on_file_box_def scenario1_def)

text \<open>
  Claim C3, as stated, fails for a loan amount beyond the doubles: line 68 raises
  OverflowError there, so the ratio is not the quotient for every loan amount.
\<close>

theorem ratio_overflows_beyond_doubles:
  "debt_to_income_ratio (2 ^ 1024) 1 =
     Inl (Exn OverflowError ''integer division result too large for a float'')"
  by (simp add: debt_to_income_ratio_def truediv_def float_overflow_def)

text \<open>
  Claim C3, amended. For every loan amount and every income the computation raises no
  ZeroDivisionError. Whenever the quotient of the loan amount by \<open>max(income, 1)\<close> is
  within the doubles, and so whenever the loan amount itself is, the ratio is that
  quotient; for the income 0 it is the loan amount divided by 1. A quotient beyond the
  doubles raises OverflowError.
\<close>

theorem debt_to_income_ratio_guarded:
  "(\<forall>msg. debt_to_income_ratio amnt income \<noteq> Inl (Exn ZeroDivisionError msg)) \<and>
   (\<not> float_overflow (real_of_int amnt / real_of_int (max income 1)) \<longrightarrow>
      debt_to_income_ratio amnt income =
        Inr (real_of_int amnt / real_of_int (max income 1))) \<and>
   (\<not> float_overflow (real_of_int amnt) \<longrightarrow>
      debt_to_income_ratio amnt income =
        Inr (real_of_int amnt / real_of_int (max income 1)) \<and>
      debt_to_income_ratio amnt 0 = Inr (real_of_int amnt / 1)) \<and>
   (float_overflow (real_of_int amnt / real_of_int (max income 1)) \<longrightarrow>
      debt_to_income_ratio amnt income =
        Inl (Exn OverflowError ''integer division result too large for a float''))"
proof -
  have a: "\<forall>msg. debt_to_income_ratio amnt income \<noteq> Inl (Exn ZeroDivisionError msg)"
    by (simp add: debt_to_income_ratio_cases)
  have b: "\<not> float_overflow (real_of_int amnt) \<longrightarrow>
      debt_to_income_ratio amnt income =
        Inr (real_of_int amnt / real_of_int (max income 1)) \<and>
      debt_to_income_ratio amnt 0 = Inr (real_of_int amnt / 1)"
    using float_overflow_quotient [of amnt income] float_overflow_quotient [of amnt 0]
    by (simp add: debt_to_income_ratio_cases)
  from a b show ?thesis by (simp add: debt_to_income_ratio_cases)
qed

text \<open>The income 0, and the first scenario's 10000 / 50000.\<close>

theorem debt_to_income_ratio_guarded_witness:
  "\<not> float_overflow (real_of_int 10000) \<and>
   \<not> float_overflow (real_of_int 10000 / real_of_int (max 50000 1)) \<and>
   debt_to_income_ratio 10000 0 = Inr 10000 \<and>
   debt_to_income_ratio 10000 50000 = Inr (1 / 5) \<and>
   float_overflow (real_of_int (2 ^ 1024) / real_of_int (max 1 1)) \<and>
   debt_to_income_ratio (2 ^ 1024) 1 =
     Inl (Exn OverflowError ''integer division result too large for a float'')"
proof -
  have a: "\<not> float_overflow (real_of_int 10000)" by (simp add: float_overflow_def)
  have b: "\<not> float_overflow (real_of_int 10000 / real_of_int (max 50000 1))"
    by (simp add: float_overflow_def)
  have c: "float_overflow (real_of_int (2 ^ 1024) / real_of_int (max 1 1))"
    by (simp add: float_overflow_def)
  from debt_to_income_ratio_guarded [of 10000 0] a
  have d: "debt_to_income_ratio 10000 0 = Inr 10000" by simp
  from debt_to_income_ratio_guarded [of 10000 50000] b
  have e: "debt_to_income_ratio 10000 50000 = Inr (1 / 5)" by simp
  from debt_to_income_ratio_guarded [of "2 ^ 1024" 1] c
  have f: "debt_to_income_ratio (2 ^ 1024) 1 =
     Inl (Exn OverflowError ''integer division result too large for a float'')"
    by blast
  from a b c d e f show ?thesis by blast
qed

text \<open>
  Claim C4, as stated, fails. A model without \<open>feature_names_in_\<close> makes line 97 raise
  an AttributeError, and the handler treats it like any other exception: the script has
  no error of its own for a missing schema. A model that has its columns and whose
  \<open>predict\<close> raises the AttributeError of the same missing attribute ends the handler's
  body with the very same exception, and the same element is shown.
\<close>

theorem missing_schema_error_not_distinct:
  "feature_names_in schemaless_model = None \<and>
   feature_names_in wrapper_model = Some sample_columns \<and>
   try_body schemaless_model scenario1 =
     Inl (Exn AttributeError (no_attribute ''XGBClassifier'' ''feature_names_in_'')) \<and>
   try_body wrapper_model scenario1 =
     Inl (Exn AttributeError (no_attribute ''XGBClassifier'' ''feature_names_in_'')) \<and>
   on_predict schemaless_model scenario1 = on_predict wrapper_model scenario1"
proof -
  have a: "feature_names_in schemaless_model = None"
    by (simp add: schemaless_model_def)
  have b: "feature_names_in wrapper_model = Some sample_columns"
    by (simp add: wrapper_model_def sample_model_def)
  have c: "try_body schemaless_model scenario1 =
     Inl (Exn AttributeError (no_attribute ''XGBClassifier'' ''feature_names_in_''))"
    using try_body_schemaless [OF a preprocess_scenario1]
    by (simp add: schemaless_model_def sample_model_def)
  note d = try_body_wrapper [OF preprocess_scenario1]
  from a b c d show ?thesis by (simp add: on_predict_def)
qed

text \<open>
  Claim C4, amended. If the loaded model has no \<open>feature_names_in_\<close> and line 68 has
  computed the ratio, the handler's body raises the AttributeError of the attribute
  access; the model is not called, as the display is the same whatever \<open>predict\<close> and
  \<open>predict_proba\<close> are; the handler shows one element, the general error message with
  the text of that exception; and any exception with that text, wherever it was raised,
  is shown as the same element. No error names the missing schema.
\<close>

theorem missing_schema_reported_by_handler:
  assumes "feature_names_in m = None"
    and "\<not> float_overflow
           (real_of_int (loan_amnt r) / real_of_int (max (person_income r) 1))"
  shows "try_body m r =
       Inl (Exn AttributeError
              ([CHR 0x27] @ class_name m @ [CHR 0x27] @ '' object has no attribute '' @
               [CHR 0x27] @ ''feature_names_in_'' @ [CHR 0x27])) \<and>
     on_predict m r =
       [Error (''Error during prediction:'' @ [CHR 0xC2, CHR 0xA0] @
               [CHR 0x27] @ class_name m @ [CHR 0x27] @ '' object has no attribute '' @
               [CHR 0x27] @ ''feature_names_in_'' @ [CHR 0x27])] \<and>
     (\<forall>p q. on_predict (m\<lparr>predict := p, predict_proba := q\<rparr>) r = on_predict m r) \<and>
     (\<forall>m' r' e. try_body m' r' = Inl e \<and>
        exn_text e =
          [CHR 0x27] @ class_name m @ [CHR 0x27] @ '' object has no attribute '' @
          [CHR 0x27] @ ''feature_names_in_'' @ [CHR 0x27] \<longrightarrow>
        on_predict m' r' = on_predict m r)"
proof -
  from preprocess_eq [OF assms(2)] obtain df where df: "preprocess r = Inr df" by simp
  note tb = try_body_schemaless [OF assms(1) df]
  have a: "try_body m r =
       Inl (Exn AttributeError
              ([CHR 0x27] @ class_name m @ [CHR 0x27] @ '' object has no attribute '' @
               [CHR 0x27] @ ''feature_names_in_'' @ [CHR 0x27]))"
    using tb by (simp add: no_attribute_def)
  have b: "on_predict m r =
       [Error (''Error during prediction:'' @ [CHR 0xC2, CHR 0xA0] @
               [CHR 0x27] @ class_name m @ [CHR 0x27] @ '' object has no attribute '' @
               [CHR 0x27] @ ''feature_names_in_'' @ [CHR 0x27])]"
    using on_predict_Inl [OF a] by simp
  have c: "\<forall>p q. on_predict (m\<lparr>predict := p, predict_proba := q\<rparr>) r = on_predict m r"
  proof (intro allI)
    fix p q
    have "feature_names_in (m\<lparr>predict := p, predict_proba := q\<rparr>) = None"
      using assms(1) by simp
    from try_body_schemaless [OF this df] tb show
      "on_predict (m\<lparr>predict := p, predict_proba := q\<rparr>) r = on_predict m r"
      by (simp add: on_predict_def)
  qed
  have d: "\<forall>m' r' e. try_body m' r' = Inl e \<and>
        exn_text e =
          [CHR 0x27] @ class_name m @ [CHR 0x27] @ '' object has no attribute '' @
          [CHR 0x27] @ ''feature_names_in_'' @ [CHR 0x27] \<longrightarrow>
        on_predict m' r' = on_predict m r"
  proof (intro allI impI, elim conjE)
    fix m' r' e
    assume "try_body m' r' = Inl e" and
      "exn_text e =
          [CHR 0x27] @ class_name m @ [CHR 0x27] @ '' object has no attribute '' @
          [CHR 0x27] @ ''feature_names_in_'' @ [CHR 0x27]"
    with on_predict_Inl [of m' r' e] b show "on_predict m' r' = on_predict m r" by simp
  qed
  from a b c d show ?thesis by (intro conjI)
qed

text \<open>The sample model without columns, against the one whose \<open>predict\<close> raises the
  same text.\<close>

theorem missing_schema_reported_by_handler_witness:
  "feature_names_in schemaless_model = None \<and>
   \<not> float_overflow
        (real_of_int (loan_amnt scenario1) / real_of_int (max (person_income scenario1) 1)) \<and>
   on_predict schemaless_model scenario1 =
     [Error (''Error during prediction:'' @ [CHR 0xC2, CHR 0xA0] @
             [CHR 0x27] @ ''XGBClassifier'' @ [CHR 0x27] @ '' object has no attribute '' @
             [CHR 0x27] @ ''feature_names_in_'' @ [CHR 0x27])] \<and>
   on_predict (schemaless_model\<lparr>predict := (\<lambda>X. Inr [0]), predict_proba := None\<rparr>) scenario1 =
     on_predict schemaless_model scenario1 \<and>
   try_body wrapper_model scenario1 =
     Inl (Exn AttributeError (no_attribute ''XGBClassifier'' ''feature_names_in_'')) \<and>
   on_predict wrapper_model scenario1 = on_predict schemaless_model scenario1"
proof -
  have h: "feature_names_in schemaless_model = None" by (simp add: schemaless_model_def)
  have cn: "class_name schemaless_model = ''XGBClassifier''"
    by (simp add: schemaless_model_def sample_model_def)
  note t = missing_schema_reported_by_handler [OF h scenario1_in_range, unfolded cn]
  note w = try_body_wrapper [OF preprocess_scenario1]
  from t have a: "on_predict schemaless_model scenario1 =
     [Error (''Error during prediction:'' @ [CHR 0xC2, CHR 0xA0] @
             [CHR 0x27] @ ''XGBClassifier'' @ [CHR 0x27] @ '' object has no attribute '' @
             [CHR 0x27] @ ''feature_names_in_'' @ [CHR 0x27])]"
    by (elim conjE)
  from t have b:
    "on_predict (schemaless_model\<lparr>predict := (\<lambda>X. Inr [0]), predict_proba := None\<rparr>) scenario1 =
     on_predict schemaless_model scenario1"
    by (elim conjE) (erule allE, erule allE, assumption)
  from t have "\<forall>m' r' e. try_body m' r' = Inl e \<and>
        exn_text e =
          [CHR 0x27] @ ''XGBClassifier'' @ [CHR 0x27] @ '' object has no attribute '' @
          [CHR 0x27] @ ''feature_names_in_'' @ [CHR 0x27] \<longrightarrow>
        on_predict m' r' = on_predict schemaless_model scenario1"
    by (elim conjE)
  from this [rule_format, of wrapper_model scenario1
      "Exn AttributeError (no_attribute ''XGBClassifier'' ''feature_names_in_'')"] w
  have c: "on_predict wrapper_model scenario1 = on_predict schemaless_model scenario1"
    by (simp add: no_attribute_def)
  from h scenario1_in_range a b w c show ?thesis by (intro conjI)
qed

text \<open>
  Claim C5, as stated, fails in its last part. The script shows whatever entry 1 of row 0
  of \<open>predict_proba\<close> is, times 100, and checks no range: a model whose row is no
  distribution gets a value outside [0,1] shown, here 150 percent.
\<close>

theorem probability_range_is_not_checked:
  "predict_proba skewed_model \<noteq> None \<and>
   predictProbability skewed_model [] = Inr (Some (3 / 2)) \<and>
   \<not> (3 / 2 \<le> (1::real)) \<and>
   on_predict skewed_model scenario1 =
     [Success ([CHR 0xE2, CHR 0x9C, CHR 0x85] @ '' Loan Approved!''), Info_percent 150]"
proof -
  have h: "feature_names_in skewed_model = Some sample_columns"
    by (simp add: skewed_model_def sample_model_def)
  have p: "predictProbability skewed_model X = Inr (Some (3 / 2))" for X
    by (simp add: predictProbability_def skewed_model_def getitem_def)
  have "invoke_model skewed_model X = Inr [decision_message 1, Info_percent 150]" for X
    by (simp add: invoke_model_def p show_result_def probability_line_def getitem_def)
      (simp add: skewed_model_def sample_model_def getitem_def)
  with try_body_aligned [OF h preprocess_scenario1]
  have "on_predict skewed_model scenario1 = [decision_message 1, Info_percent 150]"
    by (auto simp: on_predict_def)
  with p [of "[]"] show ?thesis
    by (simp add: decision_message_eq skewed_model_def)
qed

text \<open>
  Claim C5, amended. If the model has no \<open>predict_proba\<close>, \<open>predictProbability\<close> returns
  nothing and raises nothing, no probability line is shown, and the decision message is
  shown alone: approved for the label 1, not approved otherwise. If the model has
  \<open>predict_proba\<close>, the decision message is followed by one line with 100 times entry 1 of
  row 0 of its result, the probability of the positive class; the script does not check
  its range, and it lies in [0,1] when the row is a distribution over the classes.
\<close>

theorem probability_is_optional:
  assumes "feature_names_in m = Some cols"
    and "\<not> float_overflow
           (real_of_int (loan_amnt r) / real_of_int (max (person_income r) 1))"
  shows "\<exists>X. columns X = cols \<and> try_body m r = invoke_model m X \<and>
     (predict_proba m = None \<longrightarrow> predictProbability m X = Inr None) \<and>
     (\<forall>labels prediction. predict m X = Inr labels \<and> getitem labels 0 = Inr prediction \<longrightarrow>
        (predict_proba m = None \<longrightarrow>
           on_predict m r =
             [if prediction = 1
              then Success ([CHR 0xE2, CHR 0x9C, CHR 0x85] @ '' Loan Approved!'')
              else Error ([CHR 0xE2, CHR 0x9D, CHR 0x8C] @ '' Loan Not Approved!'')]) \<and>
        (\<forall>f rows row p. predict_proba m = Some f \<and> f X = Inr rows \<and>
           getitem rows 0 = Inr row \<and> getitem row 1 = Inr p \<longrightarrow>
           predictProbability m X = Inr (Some p) \<and>
           on_predict m r =
             [if prediction = 1
              then Success ([CHR 0xE2, CHR 0x9C, CHR 0x85] @ '' Loan Approved!'')
              else Error ([CHR 0xE2, CHR 0x9D, CHR 0x8C] @ '' Loan Not Approved!''),
              Info_percent (p * 100)] \<and>
           (class_probabilities row \<longrightarrow> 0 \<le> p \<and> p \<le> 1)))"
proof -
  from preprocess_eq [OF assms(2)] obtain df where df: "preprocess r = Inr df" by simp
  from try_body_aligned [OF assms(1) df] obtain X where
    X: "X = map (\<lambda>c. (c, case map_of df c of Some v \<Rightarrow> v | None \<Rightarrow> IntV 0)) cols" and
    tb: "try_body m r = invoke_model m X"
    by blast
  have cols: "columns X = cols" by (simp add: X columns_def comp_def)
  have none: "predict_proba m = None \<longrightarrow> predictProbability m X = Inr None"
    by (simp add: predictProbability_None)
  have shown: "\<forall>labels prediction.
        predict m X = Inr labels \<and> getitem labels 0 = Inr prediction \<longrightarrow>
        (predict_proba m = None \<longrightarrow>
           on_predict m r =
             [if prediction = 1
              then Success ([CHR 0xE2, CHR 0x9C, CHR 0x85] @ '' Loan Approved!'')
              else Error ([CHR 0xE2, CHR 0x9D, CHR 0x8C] @ '' Loan Not Approved!'')]) \<and>
        (\<forall>f rows row p. predict_proba m = Some f \<and> f X = Inr rows \<and>
           getitem rows 0 = Inr row \<and> getitem row 1 = Inr p \<longrightarrow>
           predictProbability m X = Inr (Some p) \<and>
           on_predict m r =
             [if prediction = 1
              then Success ([CHR 0xE2, CHR 0x9C, CHR 0x85] @ '' Loan Approved!'')
              else Error ([CHR 0xE2, CHR 0x9D, CHR 0x8C] @ '' Loan Not Approved!''),
              Info_percent (p * 100)] \<and>
           (class_probabilities row \<longrightarrow> 0 \<le> p \<and> p \<le> 1))"
  proof (intro allI impI conjI; (elim conjE)?)
    fix labels prediction
    assume l: "predict m X = Inr labels" "getitem labels 0 = Inr prediction"
      and n: "predict_proba m = None"
    from on_predict_shown [OF tb l predictProbability_None [OF n]]
    show "on_predict m r =
             [if prediction = 1
              then Success ([CHR 0xE2, CHR 0x9C, CHR 0x85] @ '' Loan Approved!'')
              else Error ([CHR 0xE2, CHR 0x9D, CHR 0x8C] @ '' Loan Not Approved!'')]"
      by (simp add: probability_line_def decision_message_eq)
  next
    fix labels prediction f rows row p
    assume l: "predict m X = Inr labels" "getitem labels 0 = Inr prediction"
      and f: "predict_proba m = Some f" "f X = Inr rows" "getitem rows 0 = Inr row"
        "getitem row 1 = Inr p"
    note pp = predictProbability_Some [OF f]
    show "predictProbability m X = Inr (Some p)" by (rule pp)
    from on_predict_shown [OF tb l pp]
    show "on_predict m r =
             [if prediction = 1
              then Success ([CHR 0xE2, CHR 0x9C, CHR 0x85] @ '' Loan Approved!'')
              else Error ([CHR 0xE2, CHR 0x9D, CHR 0x8C] @ '' Loan Not Approved!''),
              Info_percent (p * 100)]"
      by (simp add: probability_line_def decision_message_eq)
    {
      assume d: "class_probabilities row"
      from class_probabilities_bounds [OF d f(4)] show "0 \<le> p" and "p \<le> 1" by simp_all
    }
  qed
  show ?thesis by (intro exI [of _ X] conjI cols tb none shown)
qed

text \<open>The sample model with probabilities and the one without.\<close>

theorem probability_is_optional_witness:
  "feature_names_in plain_model = Some sample_columns \<and>
   feature_names_in sample_model = Some sample_columns \<and>
   \<not> float_overflow
        (real_of_int (loan_amnt scenario1) / real_of_int (max (person_income scenario1) 1)) \<and>
   predict_proba plain_model = None \<and>
   on_predict plain_model scenario1 =
     [Success ([CHR 0xE2, CHR 0x9C, CHR 0x85] @ '' Loan Approved!'')] \<and>
   class_probabilities [1 / 5, 4 / 5] \<and>
   on_predict sample_model scenario1 =
     [Success ([CHR 0xE2, CHR 0x9C, CHR 0x85] @ '' Loan Approved!''), Info_percent 80]"
proof -
  have hp: "feature_names_in plain_model = Some sample_columns"
    by (simp add: plain_model_def sample_model_def)
  have hs: "feature_names_in sample_model = Some sample_columns"
    by (simp add: sample_model_def)
  have np: "predict_proba plain_model = None" by (simp add: plain_model_def)
  have g0: "getitem [1::int] 0 = Inr 1" by (simp add: getitem_def)
  from probability_is_optional [OF hp scenario1_in_range] obtain X where
    X: "\<forall>labels prediction.
        predict plain_model X = Inr labels \<and> getitem labels 0 = Inr prediction \<longrightarrow>
        (predict_proba plain_model = None \<longrightarrow>
           on_predict plain_model scenario1 =
             [if prediction = 1
              then Success ([CHR 0xE2, CHR 0x9C, CHR 0x85] @ '' Loan Approved!'')
              else Error ([CHR 0xE2, CHR 0x9D, CHR 0x8C] @ '' Loan Not Approved!'')]) \<and>
        (\<forall>f rows row p. predict_proba plain_model = Some f \<and> f X = Inr rows \<and>
           getitem rows 0 = Inr row \<and> getitem row 1 = Inr p \<longrightarrow>
           predictProbability plain_model X = Inr (Some p) \<and>
           on_predict plain_model scenario1 =
             [if prediction = 1
              then Success ([CHR 0xE2, CHR 0x9C, CHR 0x85] @ '' Loan Approved!'')
              else Error ([CHR 0xE2, CHR 0x9D, CHR 0x8C] @ '' Loan Not Approved!''),
              Info_percent (p * 100)] \<and>
           (class_probabilities row \<longrightarrow> 0 \<le> p \<and> p \<le> 1))"
    by (elim exE conjE) (rule that; assumption)
  have "predict plain_model X = Inr [1]" by (simp add: plain_model_def sample_model_def)
  with X [rule_format, of "[1]" 1] g0 np
  have a: "on_predict plain_model scenario1 =
     [Success ([CHR 0xE2, CHR 0x9C, CHR 0x85] @ '' Loan Approved!'')]"
    by simp
  from probability_is_optional [OF hs scenario1_in_range] obtain Y where
    Y: "\<forall>labels prediction.
        predict sample_model Y = Inr labels \<and> getitem labels 0 = Inr prediction \<longrightarrow>
        (predict_proba sample_model = None \<longrightarrow>
           on_predict sample_model scenario1 =
             [if prediction = 1
              then Success ([CHR 0xE2, CHR 0x9C, CHR 0x85] @ '' Loan Approved!'')
              else Error ([CHR 0xE2, CHR 0x9D, CHR 0x8C] @ '' Loan Not Approved!'')]) \<and>
        (\<forall>f rows row p. predict_proba sample_model = Some f \<and> f Y = Inr rows \<and>
           getitem rows 0 = Inr row \<and> getitem row 1 = Inr p \<longrightarrow>
           predictProbability sample_model Y = Inr (Some p) \<and>
           on_predict sample_model scenario1 =
             [if prediction = 1
              then Success ([CHR 0xE2, CHR 0x9C, CHR 0x85] @ '' Loan Approved!'')
              else Error ([CHR 0xE2, CHR 0x9D, CHR 0x8C] @ '' Loan Not Approved!''),
              Info_percent (p * 100)] \<and>
           (class_probabilities row \<longrightarrow> 0 \<le> p \<and> p \<le> 1))"
    by (elim exE conjE) (rule that; assumption)
  have pr: "predict sample_model Y = Inr [1]" by (simp add: sample_model_def)
  have pf: "predict_proba sample_model = Some (\<lambda>X. Inr [[1 / 5, 4 / 5]])"
    by (simp add: sample_model_def)
  have g1: "getitem [[1 / 5, 4 / 5 :: real]] 0 = Inr [1 / 5, 4 / 5]"
    by (simp add: getitem_def)
  have g2: "getitem [1 / 5, 4 / 5 :: real] 1 = Inr (4 / 5)" by (simp add: getitem_def)
  note Y1 = Y [rule_format, of "[1]" 1, OF conjI [OF pr g0]]
  note Y2 = Y1 [THEN conjunct2, rule_format, of "\<lambda>X. Inr [[1 / 5, 4 / 5]]"
      "[[1 / 5, 4 / 5]]" "[1 / 5, 4 / 5]" "4 / 5"]
  from Y2 pf g1 g2
  have b: "on_predict sample_model scenario1 =
     [Success ([CHR 0xE2, CHR 0x9C, CHR 0x85] @ '' Loan Approved!''), Info_percent 80]"
    by simp
  from hp hs scenario1_in_range np a class_probabilities_sample b show ?thesis
    by (intro conjI)
qed

text \<open>
  Claim C6. Every exception raised in the handler's body, be it in the preprocessing, in
  the alignment with the model's columns or in the call of the model, is caught and shown
  as one error element: the general message followed by the exception's text. Nothing
  leaves the handler: the run of the script completes, and it has drawn the page, the
  form, the warnings and the button before that element, so that the user can try again.
\<close>

theorem predict_errors_are_displayed:
  "(\<forall>e. try_body m r = Inl e \<longrightarrow>
      on_predict m r =
        [Error (''Error during prediction:'' @ [CHR 0xC2, CHR 0xA0] @ exn_text e)]) \<and>
   (\<forall>e. preprocess r = Inl e \<longrightarrow> try_body m r = Inl e) \<and>
   (\<forall>e df. preprocess r = Inr df \<and> bind (model_columns m) (alignToSchema df) = Inl e \<longrightarrow>
      try_body m r = Inl e) \<and>
   (\<forall>e df cols X. preprocess r = Inr df \<and> model_columns m = Inr cols \<and>
      alignToSchema df cols = Inr X \<and> invoke_model m X = Inl e \<longrightarrow> try_body m r = Inl e) \<and>
   (\<forall>s e. model_file s = Some (Inr m) \<and> inputs s = r \<and> pressed s \<and>
      try_body m r = Inl e \<longrightarrow>
      run_app s =
        (Completed,
         [Page_config ([CHR 0xF0, CHR 0x9F, CHR 0x92, CHR 0xB3] @ '' Loan Approval Predictor''),
          Title ([CHR 0xF0, CHR 0x9F, CHR 0x92, CHR 0xB3] @ '' Loan Approval Prediction''),
          Write ''Fill in the details below to predict whether the loan will be approved.'',
          Columns 2,
          Subheader ([CHR 0xF0, CHR 0x9F, CHR 0x91, CHR 0xA4] @ '' Personal Info''),
          Number_input ''Person Age'', Number_input ''Person Income'',
          Number_input ''Employment Length (years)'', Selectbox ''Home Ownership'',
          Selectbox ''Default on File'', Number_input ''Credit History Length (years)'',
          Subheader ([CHR 0xF0, CHR 0x9F, CHR 0x92, CHR 0xB0] @ '' Loan Info''),
          Selectbox ''Loan Intent'', Selectbox ''Loan Grade'', Number_input ''Loan Amount'',
          Number_input ''Loan Interest Rate (%)'', Number_input ''Loan Percent Income''] @
         advisory_warnings r @
         [Button ''Predict'',
          Error (''Error during prediction:'' @ [CHR 0xC2, CHR 0xA0] @ exn_text e)]))"
proof -
  have a: "\<forall>e. try_body m r = Inl e \<longrightarrow>
      on_predict m r =
        [Error (''Error during prediction:'' @ [CHR 0xC2, CHR 0xA0] @ exn_text e)]"
    by (simp add: on_predict_Inl)
  have b: "\<forall>e. preprocess r = Inl e \<longrightarrow> try_body m r = Inl e"
    by (simp add: try_body_def)
  have c: "\<forall>e df. preprocess r = Inr df \<and>
      bind (model_columns m) (alignToSchema df) = Inl e \<longrightarrow> try_body m r = Inl e"
    by (auto simp: try_body_def bind_def split: sum.splits)
  have d: "\<forall>e df cols X. preprocess r = Inr df \<and> model_columns m = Inr cols \<and>
      alignToSchema df cols = Inr X \<and> invoke_model m X = Inl e \<longrightarrow> try_body m r = Inl e"
    by (simp add: try_body_def)
  have e: "\<forall>s e. model_file s = Some (Inr m) \<and> inputs s = r \<and> pressed s \<and>
      try_body m r = Inl e \<longrightarrow>
      run_app s =
        (Completed,
         [Page_config ([CHR 0xF0, CHR 0x9F, CHR 0x92, CHR 0xB3] @ '' Loan Approval Predictor''),
          Title ([CHR 0xF0, CHR 0x9F, CHR 0x92, CHR 0xB3] @ '' Loan Approval Prediction''),
          Write ''Fill in the details below to predict whether the loan will be approved.'',
          Columns 2,
          Subheader ([CHR 0xF0, CHR 0x9F, CHR 0x91, CHR 0xA4] @ '' Personal Info''),
          Number_input ''Person Age'', Number_input ''Person Income'',
          Number_input ''Employment Length (years)'', Selectbox ''Home Ownership'',
          Selectbox ''Default on File'', Number_input ''Credit History Length (years)'',
          Subheader ([CHR 0xF0, CHR 0x9F, CHR 0x92, CHR 0xB0] @ '' Loan Info''),
          Selectbox ''Loan Intent'', Selectbox ''Loan Grade'', Number_input ''Loan Amount'',
          Number_input ''Loan Interest Rate (%)'', Number_input ''Loan Percent Income''] @
         advisory_warnings r @
         [Button ''Predict'',
          Error (''Error during prediction:'' @ [CHR 0xC2, CHR 0xA0] @ exn_text e)])"
  proof (intro allI impI, elim conjE)
    fix s :: session and e
    assume s: "model_file s = Some (Inr m)" "inputs s = r" "pressed s"
      and tb: "try_body m r = Inl e"
    from run_app_loaded [OF s(1)] s(2,3) on_predict_Inl [OF tb]
    have "run_app s =
        (Completed,
         (page_header @ form) @ advisory_warnings r @
         [Button ''Predict'',
          Error (''Error during prediction:'' @ [CHR 0xC2, CHR 0xA0] @ exn_text e)])"
      by simp
    then show "run_app s =
        (Completed,
         [Page_config ([CHR 0xF0, CHR 0x9F, CHR 0x92, CHR 0xB3] @ '' Loan Approval Predictor''),
          Title ([CHR 0xF0, CHR 0x9F, CHR 0x92, CHR 0xB3] @ '' Loan Approval Prediction''),
          Write ''Fill in the details below to predict whether the loan will be approved.'',
          Columns 2,
          Subheader ([CHR 0xF0, CHR 0x9F, CHR 0x91, CHR 0xA4] @ '' Personal Info''),
          Number_input ''Person Age'', Number_input ''Person Income'',
          Number_input ''Employment Length (years)'', Selectbox ''Home Ownership'',
          Selectbox ''Default on File'', Number_input ''Credit History Length (years)'',
          Subheader ([CHR 0xF0, CHR 0x9F, CHR 0x92, CHR 0xB0] @ '' Loan Info''),
          Selectbox ''Loan Intent'', Selectbox ''Loan Grade'', Number_input ''Loan Amount'',
          Number_input ''Loan Interest Rate (%)'', Number_input ''Loan Percent Income''] @
         advisory_warnings r @
         [Button ''Predict'',
          Error (''Error during prediction:'' @ [CHR 0xC2, CHR 0xA0] @ exn_text e)])"
      unfolding page_header_form .
  qed
  from a b c d e show ?thesis by (intro conjI)
qed

text \<open>
  One exception of each stage: a loan amount beyond the doubles, a model without columns,
  and a model whose \<open>predict\<close> raises.
\<close>

theorem predict_errors_are_displayed_witness:
  "preprocess huge_applicant =
     Inl (Exn OverflowError ''integer division result too large for a float'') \<and>
   on_predict sample_model huge_applicant =
     [Error (''Error during prediction:'' @ [CHR 0xC2, CHR 0xA0] @
             ''integer division result too large for a float'')] \<and>
   (\<exists>df. preprocess young_applicant = Inr df \<and>
      bind (model_columns schemaless_model) (alignToSchema df) =
        Inl (Exn AttributeError (no_attribute ''XGBClassifier'' ''feature_names_in_''))) \<and>
   on_predict schemaless_model young_applicant =
     [Error (''Error during prediction:'' @ [CHR 0xC2, CHR 0xA0] @
             no_attribute ''XGBClassifier'' ''feature_names_in_'')] \<and>
   try_body failing_model young_applicant =
     Inl (Exn OtherException (no_attribute ''XGBClassifier'' ''feature_names_in_'')) \<and>
   model_file failing_session = Some (Inr failing_model) \<and>
   inputs failing_session = young_applicant \<and> pressed failing_session \<and>
   run_app failing_session =
     (Completed,
      [Page_config ([CHR 0xF0, CHR 0x9F, CHR 0x92, CHR 0xB3] @ '' Loan Approval Predictor''),
       Title ([CHR 0xF0, CHR 0x9F, CHR 0x92, CHR 0xB3] @ '' Loan Approval Prediction''),
       Write ''Fill in the details below to predict whether the loan will be approved.'',
       Columns 2,
       Subheader ([CHR 0xF0, CHR 0x9F, CHR 0x91, CHR 0xA4] @ '' Personal Info''),
       Number_input ''Person Age'', Number_input ''Person Income'',
       Number_input ''Employment Length (years)'', Selectbox ''Home Ownership'',
       Selectbox ''Default on File'', Number_input ''Credit History Length (years)'',
       Subheader ([CHR 0xF0, CHR 0x9F, CHR 0x92, CHR 0xB0] @ '' Loan Info''),
       Selectbox ''Loan Intent'', Selectbox ''Loan Grade'', Number_input ''Loan Amount'',
       Number_input ''Loan Interest Rate (%)'', Number_input ''Loan Percent Income''] @
      advisory_warnings young_applicant @
      [Button ''Predict'',
       Error (''Error during prediction:'' @ [CHR 0xC2, CHR 0xA0] @
              no_attribute ''XGBClassifier'' ''feature_names_in_'')])"
proof -
  note huge = predict_errors_are_displayed [of sample_model huge_applicant]
  note less = predict_errors_are_displayed [of schemaless_model young_applicant]
  note fail = predict_errors_are_displayed [of failing_model young_applicant]
  note ov = preprocess_overflow [OF huge_applicant_overflows]
  from huge ov have "try_body sample_model huge_applicant =
     Inl (Exn OverflowError ''integer division result too large for a float'')"
    by (elim conjE) (erule allE, erule allE, erule mp)
  with huge have a: "on_predict sample_model huge_applicant =
     [Error (''Error during prediction:'' @ [CHR 0xC2, CHR 0xA0] @
             ''integer division result too large for a float'')]"
    by simp
  from preprocess_eq [OF young_applicant_in_range] obtain df where
    df: "preprocess young_applicant = Inr df" by simp
  have mc: "bind (model_columns schemaless_model) (alignToSchema df) =
        Inl (Exn AttributeError (no_attribute ''XGBClassifier'' ''feature_names_in_''))"
    by (simp add: model_columns_def schemaless_model_def sample_model_def)
  from less have "\<forall>e df. preprocess young_applicant = Inr df \<and>
      bind (model_columns schemaless_model) (alignToSchema df) = Inl e \<longrightarrow>
      try_body schemaless_model young_applicant = Inl e"
    by (elim conjE)
  with df mc have "try_body schemaless_model young_applicant =
     Inl (Exn AttributeError (no_attribute ''XGBClassifier'' ''feature_names_in_''))"
    by blast
  with less have b: "on_predict schemaless_model young_applicant =
     [Error (''Error during prediction:'' @ [CHR 0xC2, CHR 0xA0] @
             no_attribute ''XGBClassifier'' ''feature_names_in_'')]"
    by simp
  note tf = try_body_failing [OF df]
  have s: "model_file failing_session = Some (Inr failing_model)"
    "inputs failing_session = young_applicant" "pressed failing_session"
    by (simp_all add: failing_session_def sample_session_def)
  note run = fail [THEN conjunct2, THEN conjunct2, THEN conjunct2, THEN conjunct2,
      rule_format, of failing_session
        "Exn OtherException (no_attribute ''XGBClassifier'' ''feature_names_in_'')"]
  from run s tf have c: "run_app failing_session =
     (Completed,
      [Page_config ([CHR 0xF0, CHR 0x9F, CHR 0x92, CHR 0xB3] @ '' Loan Approval Predictor''),
       Title ([CHR 0xF0, CHR 0x9F, CHR 0x92, CHR 0xB3] @ '' Loan Approval Prediction''),
       Write ''Fill in the details below to predict whether the loan will be approved.'',
       Columns 2,
       Subheader ([CHR 0xF0, CHR 0x9F, CHR 0x91, CHR 0xA4] @ '' Personal Info''),
       Number_input ''Person Age'', Number_input ''Person Income'',
       Number_input ''Employment Length (years)'', Selectbox ''Home Ownership'',
       Selectbox ''Default on File'', Number_input ''Credit History Length (years)'',
       Subheader ([CHR 0xF0, CHR 0x9F, CHR 0x92, CHR 0xB0] @ '' Loan Info''),
       Selectbox ''Loan Intent'', Selectbox ''Loan Grade'', Number_input ''Loan Amount'',
       Number_input ''Loan Interest Rate (%)'', Number_input ''Loan Percent Income''] @
      advisory_warnings young_applicant @
      [Button ''Predict'',
       Error (''Error during prediction:'' @ [CHR 0xC2, CHR 0xA0] @
              no_attribute ''XGBClassifier'' ''feature_names_in_'')])"
    by simp
  from df mc have d: "\<exists>df. preprocess young_applicant = Inr df \<and>
      bind (model_columns schemaless_model) (alignToSchema df) =
        Inl (Exn AttributeError (no_attribute ''XGBClassifier'' ''feature_names_in_''))"
    by blast
  from ov a d b tf s c show ?thesis by (intro conjI)
qed

text \<open>
  Claim C7, as stated, fails in its second half: a model file that is there and that
  \<open>joblib.load\<close> cannot unpickle ends the run with the exception of the load, and nothing
  is drawn.
\<close>

theorem unloadable_model_file_is_fatal:
  "model_file truncated_file_session \<noteq> None \<and>
   run_app truncated_file_session =
     (Uncaught (Exn OtherException ''pickle data was truncated''), [])"
  by (simp add: run_app_def load_model_def truncated_file_session_def)

text \<open>
  Claim C7, amended. If no file is at the model's path, the run ends with a
  FileNotFoundError whose text names the path, and nothing has been drawn. If the file
  is there and \<open>joblib.load\<close> returns the model, the run completes and has drawn the page
  header and the form, then the warnings, the button and what the handler shows. If the
  file is there and \<open>joblib.load\<close> raises, that exception ends the run and nothing has
  been drawn.
\<close>

theorem missing_model_file_is_fatal:
  "(model_file s = None \<longrightarrow>
      run_app s =
        (Uncaught (Exn FileNotFoundError
           ([CHR 0xE2, CHR 0x9D, CHR 0x8C] @ '' Model file not found at: '' @ MODEL_PATH s)),
         [])) \<and>
   (script_dir s \<noteq> [] \<and> last (script_dir s) \<noteq> CHR ''/'' \<longrightarrow>
      MODEL_PATH s = script_dir s @ ''/Model/best_xgb.pkl'') \<and>
   (\<forall>e. model_file s = Some (Inl e) \<longrightarrow> run_app s = (Uncaught e, [])) \<and>
   (\<forall>m. model_file s = Some (Inr m) \<longrightarrow>
      run_app s =
        (Completed,
         [Page_config ([CHR 0xF0, CHR 0x9F, CHR 0x92, CHR 0xB3] @ '' Loan Approval Predictor''),
          Title ([CHR 0xF0, CHR 0x9F, CHR 0x92, CHR 0xB3] @ '' Loan Approval Prediction''),
          Write ''Fill in the details below to predict whether the loan will be approved.'',
          Columns 2,
          Subheader ([CHR 0xF0, CHR 0x9F, CHR 0x91, CHR 0xA4] @ '' Personal Info''),
          Number_input ''Person Age'', Number_input ''Person Income'',
          Number_input ''Employment Length (years)'', Selectbox ''Home Ownership'',
          Selectbox ''Default on File'', Number_input ''Credit History Length (years)'',
          Subheader ([CHR 0xF0, CHR 0x9F, CHR 0x92, CHR 0xB0] @ '' Loan Info''),
          Selectbox ''Loan Intent'', Selectbox ''Loan Grade'', Number_input ''Loan Amount'',
          Number_input ''Loan Interest Rate (%)'', Number_input ''Loan Percent Income''] @
         advisory_warnings (inputs s) @ [Button ''Predict''] @
         (if pressed s then on_predict m (inputs s) else [])))"
proof -
  have a: "model_file s = None \<longrightarrow>
      run_app s =
        (Uncaught (Exn FileNotFoundError
           ([CHR 0xE2, CHR 0x9D, CHR 0x8C] @ '' Model file not found at: '' @ MODEL_PATH s)),
         [])"
    by (simp add: run_app_def load_model_def cross_mark_def)
  have b: "script_dir s \<noteq> [] \<and> last (script_dir s) \<noteq> CHR ''/'' \<longrightarrow>
      MODEL_PATH s = script_dir s @ ''/Model/best_xgb.pkl''"
    by (simp add: MODEL_PATH_def path_join_def)
  have c: "\<forall>e. model_file s = Some (Inl e) \<longrightarrow> run_app s = (Uncaught e, [])"
    by (simp add: run_app_def load_model_def)
  have d: "\<forall>m. model_file s = Some (Inr m) \<longrightarrow>
      run_app s =
        (Completed,
         (page_header @ form) @ advisory_warnings (inputs s) @ [Button ''Predict''] @
         (if pressed s then on_predict m (inputs s) else []))"
    by (simp add: run_app_loaded)
  from a b c d [unfolded page_header_form] show ?thesis by (intro conjI)
qed

text \<open>A session without the file, one with a truncated file, and the sample session.\<close>

theorem missing_model_file_is_fatal_witness:
  "model_file missing_file_session = None \<and>
   script_dir missing_file_session \<noteq> [] \<and>
   last (script_dir missing_file_session) \<noteq> CHR ''/'' \<and>
   run_app missing_file_session =
     (Uncaught (Exn FileNotFoundError
        ([CHR 0xE2, CHR 0x9D, CHR 0x8C] @
         '' Model file not found at: /app/Model/best_xgb.pkl'')), []) \<and>
   model_file truncated_file_session =
     Some (Inl (Exn OtherException ''pickle data was truncated'')) \<and>
   run_app truncated_file_session =
     (Uncaught (Exn OtherException ''pickle data was truncated''), []) \<and>
   model_file sample_session = Some (Inr sample_model) \<and>
   run_app sample_session =
     (Completed,
      [Page_config ([CHR 0xF0, CHR 0x9F, CHR 0x92, CHR 0xB3] @ '' Loan Approval Predictor''),
       Title ([CHR 0xF0, CHR 0x9F, CHR 0x92, CHR 0xB3] @ '' Loan Approval Prediction''),
       Write ''Fill in the details below to predict whether the loan will be approved.'',
       Columns 2,
       Subheader ([CHR 0xF0, CHR 0x9F, CHR 0x91, CHR 0xA4] @ '' Personal Info''),
       Number_input ''Person Age'', Number_input ''Person Income'',
       Number_input ''Employment Length (years)'', Selectbox ''Home Ownership'',
       Selectbox ''Default on File'', Number_input ''Credit History Length (years)'',
       Subheader ([CHR 0xF0, CHR 0x9F, CHR 0x92, CHR 0xB0] @ '' Loan Info''),
       Selectbox ''Loan Intent'', Selectbox ''Loan Grade'', Number_input ''Loan Amount'',
       Number_input ''Loan Interest Rate (%)'', Number_input ''Loan Percent Income''] @
      advisory_warnings young_applicant @ [Button ''Predict''] @
      on_predict sample_model young_applicant)"
proof -
  have a: "model_file missing_file_session = None"
    by (simp add: missing_file_session_def)
  have p: "script_dir missing_file_session = ''/app''"
    by (simp add: missing_file_session_def sample_session_def)
  have b: "model_file truncated_file_session =
     Some (Inl (Exn OtherException ''pickle data was truncated''))"
    by (simp add: truncated_file_session_def)
  have c: "model_file sample_session = Some (Inr sample_model)"
    "inputs sample_session = young_applicant" "pressed sample_session"
    by (simp_all add: sample_session_def)
  from missing_model_file_is_fatal [of missing_file_session] a p
  have m: "run_app missing_file_session =
     (Uncaught (Exn FileNotFoundError
        ([CHR 0xE2, CHR 0x9D, CHR 0x8C] @
         '' Model file not found at: /app/Model/best_xgb.pkl'')), [])"
    by simp
  from missing_model_file_is_fatal [of truncated_file_session] b
  have t: "run_app truncated_file_session =
     (Uncaught (Exn OtherException ''pickle data was truncated''), [])"
    by simp
  from missing_model_file_is_fatal [of sample_session] c
  have r: "run_app sample_session =
        (Completed,
         [Page_config ([CHR 0xF0, CHR 0x9F, CHR 0x92, CHR 0xB3] @ '' Loan Approval Predictor''),
          Title ([CHR 0xF0, CHR 0x9F, CHR 0x92, CHR 0xB3] @ '' Loan Approval Prediction''),
          Write ''Fill in the details below to predict whether the loan will be approved.'',
          Columns 2,
          Subheader ([CHR 0xF0, CHR 0x9F, CHR 0x91, CHR 0xA4] @ '' Personal Info''),
          Number_input ''Person Age'', Number_input ''Person Income'',
          Number_input ''Employment Length (years)'', Selectbox ''Home Ownership'',
          Selectbox ''Default on File'', Number_input ''Credit History Length (years)'',
          Subheader ([CHR 0xF0, CHR 0x9F, CHR 0x92, CHR 0xB0] @ '' Loan Info''),
          Selectbox ''Loan Intent'', Selectbox ''Loan Grade'', Number_input ''Loan Amount'',
          Number_input ''Loan Interest Rate (%)'', Number_input ''Loan Percent Income''] @
         advisory_warnings young_applicant @ [Button ''Predict''] @
         on_predict sample_model young_applicant)"
    by simp
  from a p m b t c(1) r show ?thesis by simp
qed

text \<open>
  Claim C8. There are five advisory checks: age in [20,75], income at least 10000,
  employment length in [0,50], loan amount at least 5000, interest rate in [5,25]. Each
  warning is shown exactly when its value is out of range, and no other warning exists;
  the values reach the frame as they were read, wherever line 68 can compute the ratio,
  and the handler runs after the warnings whatever they are.
\<close>

theorem advisory_warnings_never_block:
  "(Warning age_warning \<in> set (advisory_warnings r) \<longleftrightarrow>
      \<not> (20 \<le> person_age r \<and> person_age r \<le> 75)) \<and>
   (Warning income_warning \<in> set (advisory_warnings r) \<longleftrightarrow> \<not> person_income r \<ge> 10000) \<and>
   (Warning emp_length_warning \<in> set (advisory_warnings r) \<longleftrightarrow>
      \<not> (0 \<le> person_emp_length r \<and> person_emp_length r \<le> 50)) \<and>
   (Warning loan_amnt_warning \<in> set (advisory_warnings r) \<longleftrightarrow> \<not> loan_amnt r \<ge> 5000) \<and>
   (Warning int_rate_warning \<in> set (advisory_warnings r) \<longleftrightarrow>
      \<not> (5 \<le> loan_int_rate r \<and> loan_int_rate r \<le> 25)) \<and>
   set (advisory_warnings r) \<subseteq>
     {Warning age_warning, Warning income_warning, Warning emp_length_warning,
      Warning loan_amnt_warning, Warning int_rate_warning} \<and>
   (\<not> float_overflow
         (real_of_int (loan_amnt r) / real_of_int (max (person_income r) 1)) \<longrightarrow>
    (\<exists>df. preprocess r = Inr df \<and>
      map_of df ''person_age'' = Some (IntV (person_age r)) \<and>
      map_of df ''person_income'' = Some (IntV (person_income r)) \<and>
      map_of df ''person_emp_length'' = Some (IntV (person_emp_length r)) \<and>
      map_of df ''loan_amnt'' = Some (IntV (loan_amnt r)) \<and>
      map_of df ''loan_int_rate'' = Some (FloatV (loan_int_rate r)))) \<and>
   (\<forall>s m. model_file s = Some (Inr m) \<and> inputs s = r \<and> pressed s \<longrightarrow>
      run_app s =
        (Completed,
         page_header @ form @ advisory_warnings r @ [Button ''Predict''] @ on_predict m r))"
proof -
  have a: "Warning age_warning \<in> set (advisory_warnings r) \<longleftrightarrow>
      \<not> (20 \<le> person_age r \<and> person_age r \<le> 75)"
    by (simp add: advisory_warnings_def warning_texts)
  have b: "Warning income_warning \<in> set (advisory_warnings r) \<longleftrightarrow> \<not> person_income r \<ge> 10000"
    by (simp add: advisory_warnings_def warning_texts)
  have c: "Warning emp_length_warning \<in> set (advisory_warnings r) \<longleftrightarrow>
      \<not> (0 \<le> person_emp_length r \<and> person_emp_length r \<le> 50)"
    by (simp add: advisory_warnings_def warning_texts)
  have d: "Warning loan_amnt_warning \<in> set (advisory_warnings r) \<longleftrightarrow> \<not> loan_amnt r \<ge> 5000"
    by (simp add: advisory_warnings_def warning_texts)
  have e: "Warning int_rate_warning \<in> set (advisory_warnings r) \<longleftrightarrow>
      \<not> (5 \<le> loan_int_rate r \<and> loan_int_rate r \<le> 25)"
    by (simp add: advisory_warnings_def warning_texts)
  have f: "set (advisory_warnings r) \<subseteq>
     {Warning age_warning, Warning income_warning, Warning emp_length_warning,
      Warning loan_amnt_warning, Warning int_rate_warning}"
    by (auto simp: advisory_warnings_def)
  have g: "\<not> float_overflow
         (real_of_int (loan_amnt r) / real_of_int (max (person_income r) 1)) \<longrightarrow>
    (\<exists>df. preprocess r = Inr df \<and>
      map_of df ''person_age'' = Some (IntV (person_age r)) \<and>
      map_of df ''person_income'' = Some (IntV (person_income r)) \<and>
      map_of df ''person_emp_length'' = Some (IntV (person_emp_length r)) \<and>
      map_of df ''loan_amnt'' = Some (IntV (loan_amnt r)) \<and>
      map_of df ''loan_int_rate'' = Some (FloatV (loan_int_rate r)))"
  proof
    assume "\<not> float_overflow
         (real_of_int (loan_amnt r) / real_of_int (max (person_income r) 1))"
    from preprocess_eq [OF this] obtain df where df: "preprocess r = Inr df" by simp
    from df map_of_preprocess [OF df] show "\<exists>df. preprocess r = Inr df \<and>
      map_of df ''person_age'' = Some (IntV (person_age r)) \<and>
      map_of df ''person_income'' = Some (IntV (person_income r)) \<and>
      map_of df ''person_emp_length'' = Some (IntV (person_emp_length r)) \<and>
      map_of df ''loan_amnt'' = Some (IntV (loan_amnt r)) \<and>
      map_of df ''loan_int_rate'' = Some (FloatV (loan_int_rate r))"
      by blast
  qed
  have h: "\<forall>s m. model_file s = Some (Inr m) \<and> inputs s = r \<and> pressed s \<longrightarrow>
      run_app s =
        (Completed,
         page_header @ form @ advisory_warnings r @ [Button ''Predict''] @ on_predict m r)"
    by (auto simp: run_app_loaded)
  from a b c d e f g h show ?thesis by (intro conjI)
qed

text \<open>
  An applicant of 18: the age warning is shown, the age 18 is in the frame, and the
  decision follows.
\<close>

theorem advisory_warnings_never_block_witness:
  "Warning age_warning \<in> set (advisory_warnings young_applicant) \<and>
   \<not> (20 \<le> person_age young_applicant \<and> person_age young_applicant \<le> 75) \<and>
   \<not> float_overflow
        (real_of_int (loan_amnt young_applicant) /
         real_of_int (max (person_income young_applicant) 1)) \<and>
   (\<exists>df. preprocess young_applicant = Inr df \<and> map_of df ''person_age'' = Some (IntV 18)) \<and>
   model_file sample_session = Some (Inr sample_model) \<and>
   inputs sample_session = young_applicant \<and> pressed sample_session \<and>
   run_app sample_session =
     (Completed,
      page_header @ form @
      [Warning ([CHR 0xE2, CHR 0x9A, CHR 0xA0] @ '' Age should be between 20 and 75 years.''),
       Button ''Predict'',
       Success ([CHR 0xE2, CHR 0x9C, CHR 0x85] @ '' Loan Approved!''),
       Info_percent 80])"
proof -
  note t = advisory_warnings_never_block [of young_applicant]
  have age: "person_age young_applicant = 18" by (simp add: young_applicant_def)
  have s: "model_file sample_session = Some (Inr sample_model) \<and>
     inputs sample_session = young_applicant \<and> pressed sample_session"
    by (simp add: sample_session_def)
  from t have "\<forall>s m. model_file s = Some (Inr m) \<and> inputs s = young_applicant \<and> pressed s \<longrightarrow>
      run_app s =
        (Completed,
         page_header @ form @ advisory_warnings young_applicant @ [Button ''Predict''] @
         on_predict m young_applicant)"
    by (elim conjE)
  from this [rule_format, OF s] have run: "run_app sample_session =
        (Completed,
         page_header @ form @ advisory_warnings young_applicant @ [Button ''Predict''] @
         on_predict sample_model young_applicant)" .
  have w: "advisory_warnings young_applicant =
      [Warning ([CHR 0xE2, CHR 0x9A, CHR 0xA0] @ '' Age should be between 20 and 75 years.'')]"
    by (simp add: advisory_warnings_def young_applicant_def scenario1_def age_warning_def
        warning_sign_def)
  from t age have in_set: "Warning age_warning \<in> set (advisory_warnings young_applicant)"
    by simp
  from t young_applicant_in_range age
  have ex: "\<exists>df. preprocess young_applicant = Inr df \<and>
      map_of df ''person_age'' = Some (IntV 18)"
    by auto
  then obtain df where df: "preprocess young_applicant = Inr df" by blast
  have shown: "on_predict sample_model young_applicant =
      [Success ([CHR 0xE2, CHR 0x9C, CHR 0x85] @ '' Loan Approved!''), Info_percent 80]"
    by (simp add: on_predict_sample [OF df] decision_message_eq)
  from in_set age young_applicant_in_range ex s run w shown show ?thesis by simp
qed



text \<open>
  Claim C10. The income warning and the loan-amount warning cannot be shown: the income
  widget has the minimum 10000 and the loan-amount widget the minimum 5000, so for every
  record the form can hand over both conditions hold.
\<close>

theorem income_and_amount_warnings_unreachable:
  "collected r \<Longrightarrow>
   person_income r \<ge> 10000 \<and> loan_amnt r \<ge> 5000 \<and>
   Warning income_warning \<notin> set (advisory_warnings r) \<and>
   Warning loan_amnt_warning \<notin> set (advisory_warnings r)"
  by (simp add: collected_def produces_def person_income_input_def loan_amnt_input_def
      advisory_warnings_def warning_texts)

text \<open>
  The applicant of 18: only the age warning.
\<close>

theorem income_and_amount_warnings_unreachable_witness:
  "collected young_applicant \<and>
   Warning income_warning \<notin> set (advisory_warnings young_applicant) \<and>
   Warning loan_amnt_warning \<notin> set (advisory_warnings young_applicant) \<and>
   advisory_warnings young_applicant = [Warning age_warning]"
  using income_and_amount_warnings_unreachable [OF collected_young_applicant]
    collected_young_applicant
  by (simp add: advisory_warnings_def young_applicant_def scenario1_def)

end
